(* ===== verification/Prelude.thy ===== *)
theory Prelude
  imports Complex_Main "HOL-Library.Word"
begin

text \<open>
  Shared vocabulary of the development: the error type of the JavaScript runtime as far
  as the generator can raise it, the result type \<open>js_error + 'a\<close> with its bind, the
  JavaScript operations on numbers and arrays that HOL does not have as such (array
  indexing that yields \<open>undefined\<close>, the remainder operator \<open>%\<close>), and the generic
  lemmas on linear interpolation that the geometric components share.
  JavaScript numbers are modelled as exact reals (\<open>real\<close>); IEEE rounding is not
  modelled.
\<close>

named_theorems js_simps "evaluation rules of the JavaScript helpers"

section \<open>Errors and results\<close>

text \<open>
  \<open>TypeError\<close>: reading a property of \<open>undefined\<close> (an array read out of range);
  \<open>FakerError\<close>: \<open>faker.number.int\<close> called with \<open>max < min\<close>.
\<close>

datatype js_error = TypeError | FakerError

type_synonym 'a result = "js_error + 'a"

definition bind_res :: "'a result \<Rightarrow> ('a \<Rightarrow> 'b result) \<Rightarrow> 'b result" where
  "bind_res r f = (case r of Inl e \<Rightarrow> Inl e | Inr a \<Rightarrow> f a)"

section \<open>Array indexing\<close>

text \<open>
  \<open>xs[k]\<close> in JavaScript: the element when \<open>0 \<le> k < xs.length\<close>, \<open>undefined\<close>
  (here \<open>None\<close>) otherwise. The index is a number; the generator only indexes with
  integer values (results of \<open>Math.floor\<close>), so it is an \<open>int\<close>.
\<close>

definition nth_opt :: "'a list \<Rightarrow> int \<Rightarrow> 'a option" where
  "nth_opt xs k = (if 0 \<le> k \<and> k < int (length xs) then Some (xs ! nat k) else None)"

section \<open>Numbers\<close>

text \<open>
  The remainder operator \<open>n % d\<close> on numbers: \<open>n - d * q\<close> where \<open>q\<close> is \<open>n / d\<close>
  truncated towards zero (ECMA-262, Number::remainder). Division by zero is \<open>NaN\<close>
  in JavaScript and \<open>0\<close> in HOL; the generator never reaches a result computed
  with a zero divisor (see \<open>Telemetry\<close>).
\<close>

definition js_trunc :: "real \<Rightarrow> int" where
  "js_trunc x = (if 0 \<le> x then \<lfloor>x\<rfloor> else \<lceil>x\<rceil>)"

definition js_rem :: "real \<Rightarrow> real \<Rightarrow> real" where
  "js_rem n d = n - d * of_int (js_trunc (n / d))"

section \<open>Lemmas on results, indexing and remainders\<close>

lemma bind_res_Inl [simp]: "bind_res (Inl e) f = Inl e"
  by (simp add: bind_res_def)

lemma bind_res_Inr [simp]: "bind_res (Inr a) f = f a"
  by (simp add: bind_res_def)

lemma bind_res_eq_Inr:
  "bind_res r f = Inr b \<longleftrightarrow> (\<exists>a. r = Inr a \<and> f a = Inr b)"
  by (cases r) auto

lemma nth_opt_in_range [js_simps]:
  "0 \<le> k \<Longrightarrow> k < int (length xs) \<Longrightarrow> nth_opt xs k = Some (xs ! nat k)"
  by (simp add: nth_opt_def)

lemma nth_opt_Nil [simp]: "nth_opt [] k = None"
  by (simp add: nth_opt_def)

lemma nth_opt_None_iff: "nth_opt xs k = None \<longleftrightarrow> k < 0 \<or> int (length xs) \<le> k"
  by (auto simp add: nth_opt_def)

lemma js_rem_nonneg_eq [js_simps]:
  "0 \<le> n \<Longrightarrow> 0 < d \<Longrightarrow> js_rem n d = n - d * of_int \<lfloor>n / d\<rfloor>"
  by (simp add: js_rem_def js_trunc_def)

lemma js_rem_bounds:
  assumes "0 \<le> n" and "0 < d"
  shows "0 \<le> js_rem n d \<and> js_rem n d < d"
proof -
  have fl: "of_int \<lfloor>n / d\<rfloor> \<le> n / d" "n / d < of_int \<lfloor>n / d\<rfloor> + 1"
    by linarith+
  have "d * of_int \<lfloor>n / d\<rfloor> \<le> d * (n / d)"
    using fl(1) assms(2) by (intro mult_left_mono) simp_all
  then have "d * of_int \<lfloor>n / d\<rfloor> \<le> n"
    using assms(2) by simp
  moreover from fl(2) assms(2) have "n < d * of_int \<lfloor>n / d\<rfloor> + d"
    by (simp add: pos_divide_less_eq algebra_simps)
  ultimately show ?thesis
    using assms by (simp add: js_rem_nonneg_eq)
qed

text \<open>
  \<open>js_rem n d / d\<close> is the fractional part of \<open>n / d\<close>: the form in which the
  telemetry progress is computed.
\<close>

lemma js_rem_div_frac:
  "0 \<le> n \<Longrightarrow> 0 < d \<Longrightarrow> js_rem n d / d = frac (n / d)"
  by (simp add: js_rem_nonneg_eq frac_def diff_divide_distrib)

section \<open>Linear interpolation\<close>

text \<open>
  Both components compute coordinates of the form \<open>a + (b - a) * t\<close>: the route
  builder with \<open>t = i / n\<close>, the synthesizer with the progress in a segment. A point
  of this form lies between \<open>a\<close> and \<open>b\<close> when \<open>0 \<le> t \<le> 1\<close>, so every interval
  that holds \<open>a\<close> and \<open>b\<close> holds it.
\<close>

lemma lerp_between:
  fixes a b t lo hi :: real
  assumes "lo \<le> a" "a \<le> hi" "lo \<le> b" "b \<le> hi" "0 \<le> t" "t \<le> 1"
  shows "lo \<le> a + (b - a) * t \<and> a + (b - a) * t \<le> hi"
proof -
  have eq: "a + (b - a) * t = (1 - t) * a + t * b"
    by (simp add: algebra_simps)
  have "(1 - t) * lo + t * lo \<le> (1 - t) * a + t * b"
    using assms by (intro add_mono mult_left_mono) auto
  moreover have "(1 - t) * a + t * b \<le> (1 - t) * hi + t * hi"
    using assms by (intro add_mono mult_left_mono) auto
  ultimately show ?thesis
    by (simp add: eq algebra_simps)
qed

end
