(* ===== verification/Faker.thy ===== *)
theory Faker
  imports Prelude
begin

text \<open>
  The random sources the generator draws from, as an interface, and the two
  \<open>@faker-js/faker\<close> functions it calls. The library is not part of the repository:
  \<open>faker.number.float\<close> and \<open>faker.number.int\<close> are modelled from their documented
  behaviour (faker v8: a draw \<open>r\<close> in \<open>[0, 1)\<close> from the randomizer, scaled into the
  requested range; equal bounds return the bound without a draw; \<open>max < min\<close> throws a
  \<open>FakerError\<close>). The \<open>uuid\<close> package draws 16 bytes from the crypto source.

  Both sources are one state \<open>'s\<close> threaded through every draw: the client lemmas
  hold for any state type and any generator that satisfies \<open>rng_ok\<close>.
\<close>

record 's rng =
  rng_next :: "'s \<Rightarrow> real \<times> 's"
  rng_bytes :: "'s \<Rightarrow> 8 word list \<times> 's"

definition rng_ok :: "'s rng \<Rightarrow> bool" where
  "rng_ok g \<longleftrightarrow>
     (\<forall>s. 0 \<le> fst (rng_next g s) \<and> fst (rng_next g s) < 1) \<and>
     (\<forall>s. length (fst (rng_bytes g s)) = 16)"

section \<open>faker.number.float\<close>

definition faker_float :: "'s rng \<Rightarrow> real \<Rightarrow> real \<Rightarrow> 's \<Rightarrow> (real \<times> 's) result" where
  "faker_float g lo hi s =
     (if hi = lo then Inr (lo, s)
      else if hi < lo then Inl FakerError
      else (let (r, s') = rng_next g s in Inr (r * (hi - lo) + lo, s')))"

section \<open>faker.number.int\<close>

text \<open>
  The bounds the generator passes are integer literals, so \<open>Math.ceil(min)\<close> and
  \<open>Math.floor(max)\<close> of the library are the bounds themselves.
\<close>

definition faker_int :: "'s rng \<Rightarrow> int \<Rightarrow> int \<Rightarrow> 's \<Rightarrow> (int \<times> 's) result" where
  "faker_int g lo hi s =
     (if lo = hi then Inr (lo, s)
      else if hi < lo then Inl FakerError
      else (let (r, s') = rng_next g s in Inr (\<lfloor>r * of_int (hi + 1 - lo) + of_int lo\<rfloor>, s')))"

text \<open>
  A deterministic generator for the examples and witnesses of the development: the
  state counts the draws, every float draw is \<open>1/2\<close> and every byte block is
  \<open>0, 1, \<dots>, 15\<close>.
\<close>

definition demo_rng :: "nat rng" where
  "demo_rng = \<lparr>rng_next = (\<lambda>n. (1 / 2, Suc n)), rng_bytes = (\<lambda>n. (map word_of_nat [0..<16], Suc n))\<rparr>"

section \<open>Lemmas on the draws\<close>

lemma rng_okD:
  assumes "rng_ok g" and "rng_next g s = (r, s')"
  shows "0 \<le> r" and "r < 1"
  using assms by (auto simp add: rng_ok_def dest: spec [of _ s])

lemma rng_ok_bytes:
  assumes "rng_ok g" and "rng_bytes g s = (bs, s')"
  shows "length bs = 16"
  using assms by (auto simp add: rng_ok_def dest: spec [of _ s])

lemma faker_float_range:
  assumes "rng_ok g" and "lo < hi"
  shows "\<exists>x s'. faker_float g lo hi s = Inr (x, s') \<and> lo \<le> x \<and> x < hi"
proof -
  obtain r s' where rs: "rng_next g s = (r, s')" by fastforce
  from assms(1) rs have "0 \<le> r" "r < 1" by (rule rng_okD)+
  with assms(2) have "0 \<le> r * (hi - lo)" "r * (hi - lo) < hi - lo"
    by (simp_all add: mult_less_cancel_right1)
  with assms(2) rs show ?thesis
    by (simp add: faker_float_def)
qed

lemma floor_scaled_range:
  fixes r :: real and lo hi :: int
  assumes "0 \<le> r" "r < 1" "lo \<le> hi"
  shows "lo \<le> \<lfloor>r * of_int (hi + 1 - lo) + of_int lo\<rfloor> \<and>
         \<lfloor>r * of_int (hi + 1 - lo) + of_int lo\<rfloor> \<le> hi"
proof -
  have w: "(0::real) < of_int (hi + 1 - lo)" using assms(3) by linarith
  have "0 \<le> r * of_int (hi + 1 - lo)" using assms(1) w by simp
  moreover have "r * of_int (hi + 1 - lo) < of_int (hi + 1 - lo)"
    using assms(2) w by simp
  ultimately have "of_int lo \<le> r * of_int (hi + 1 - lo) + of_int lo"
    and "r * of_int (hi + 1 - lo) + of_int lo < of_int (hi + 1)"
    by simp_all
  then show ?thesis by linarith
qed

lemma faker_int_range:
  assumes "rng_ok g" and "lo \<le> hi"
  shows "\<exists>v s'. faker_int g lo hi s = Inr (v, s') \<and> lo \<le> v \<and> v \<le> hi"
proof (cases "lo = hi")
  case True
  then show ?thesis by (simp add: faker_int_def)
next
  case False
  obtain r s' where rs: "rng_next g s = (r, s')" by fastforce
  from assms(1) rs have "0 \<le> r" "r < 1" by (rule rng_okD)+
  then have "lo \<le> \<lfloor>r * of_int (hi + 1 - lo) + of_int lo\<rfloor> \<and>
             \<lfloor>r * of_int (hi + 1 - lo) + of_int lo\<rfloor> \<le> hi"
    using assms(2) by (rule floor_scaled_range)
  moreover have "\<not> hi < lo" using assms(2) by simp
  ultimately show ?thesis
    using False rs by (simp only: faker_int_def if_False Let_def prod.case) simp
qed

lemma demo_rng_ok: "rng_ok demo_rng"
  by (simp add: rng_ok_def demo_rng_def)

lemma faker_int_error: "hi < lo \<Longrightarrow> faker_int g lo hi s = Inl FakerError"
  by (simp add: faker_int_def)

end
