(* ===== verification/Geo.thy ===== *)
theory Geo
  imports Faker
begin

text \<open>
  Geographic data of \<open>src/dataGenerator.js\<close>: the coordinate objects
  \<open>{latitude, longitude}\<close>, the segment objects \<open>{start, end}\<close> that
  \<open>generatePathSegments\<close> pushes, the bounding box \<open>SRI_LANKA_BOUNDS\<close> and the random
  endpoint source \<open>getRandomSriLankanCoordinates\<close>. The field names of a segment are
  \<open>seg_start\<close> and \<open>seg_end\<close> (\<open>end\<close> is a keyword of Isabelle).
\<close>

record geo_point =
  latitude :: real
  longitude :: real

record segment =
  seg_start :: geo_point
  seg_end :: geo_point

record bounds =
  minLat :: real
  maxLat :: real
  minLng :: real
  maxLng :: real

definition SRI_LANKA_BOUNDS :: bounds where
  "SRI_LANKA_BOUNDS = \<lparr>minLat = 5.912, maxLat = 9.842, minLng = 79.695, maxLng = 81.787\<rparr>"

definition in_bounds :: "bounds \<Rightarrow> geo_point \<Rightarrow> bool" where
  "in_bounds b p \<longleftrightarrow>
     minLat b \<le> latitude p \<and> latitude p \<le> maxLat b \<and>
     minLng b \<le> longitude p \<and> longitude p \<le> maxLng b"

text \<open>
  The object literal evaluates its properties left to right: the latitude is drawn
  first, the longitude second.
\<close>

definition getRandomSriLankanCoordinates :: "'s rng \<Rightarrow> 's \<Rightarrow> (geo_point \<times> 's) result" where
  "getRandomSriLankanCoordinates g s =
     bind_res (faker_float g (minLat SRI_LANKA_BOUNDS) (maxLat SRI_LANKA_BOUNDS) s) (\<lambda>(lat, s1).
     bind_res (faker_float g (minLng SRI_LANKA_BOUNDS) (maxLng SRI_LANKA_BOUNDS) s1) (\<lambda>(lng, s2).
     Inr (\<lparr>latitude = lat, longitude = lng\<rparr>, s2)))"

text \<open>A point between two points of a box, coordinate by coordinate, is in the box.\<close>

lemma in_bounds_lerp:
  assumes "in_bounds b p" "in_bounds b q" "0 \<le> t" "t \<le> 1"
  shows "in_bounds b \<lparr>latitude = latitude p + (latitude q - latitude p) * t,
                      longitude = longitude p + (longitude q - longitude p) * t\<rparr>"
  using assms lerp_between [of "minLat b" "latitude p" "maxLat b" "latitude q" t]
    lerp_between [of "minLng b" "longitude p" "maxLng b" "longitude q" t]
  by (simp add: in_bounds_def)

lemma geo_point_eta [simp]: "\<lparr>latitude = latitude p, longitude = longitude p\<rparr> = (p::geo_point)"
  by (cases p) simp

lemma SRI_LANKA_BOUNDS_nonempty:
  "minLat SRI_LANKA_BOUNDS < maxLat SRI_LANKA_BOUNDS \<and>
   minLng SRI_LANKA_BOUNDS < maxLng SRI_LANKA_BOUNDS"
  by (simp add: SRI_LANKA_BOUNDS_def)

lemma getRandomSriLankanCoordinates_ok:
  "\<exists>p s'. getRandomSriLankanCoordinates g s = Inr (p, s')"
  by (simp add: getRandomSriLankanCoordinates_def faker_float_def SRI_LANKA_BOUNDS_def split: prod.split)

lemma getRandomSriLankanCoordinates_in_bounds:
  assumes "rng_ok g" and "getRandomSriLankanCoordinates g s = Inr (p, s')"
  shows "in_bounds SRI_LANKA_BOUNDS p"
proof -
  obtain x s1 where x: "faker_float g (minLat SRI_LANKA_BOUNDS) (maxLat SRI_LANKA_BOUNDS) s = Inr (x, s1)"
    "minLat SRI_LANKA_BOUNDS \<le> x" "x < maxLat SRI_LANKA_BOUNDS"
    using faker_float_range [OF assms(1)] SRI_LANKA_BOUNDS_nonempty by blast
  obtain y s2 where y: "faker_float g (minLng SRI_LANKA_BOUNDS) (maxLng SRI_LANKA_BOUNDS) s1 = Inr (y, s2)"
    "minLng SRI_LANKA_BOUNDS \<le> y" "y < maxLng SRI_LANKA_BOUNDS"
    using faker_float_range [OF assms(1)] SRI_LANKA_BOUNDS_nonempty by blast
  from assms(2) x(1) y(1) have "p = \<lparr>latitude = x, longitude = y\<rparr>"
    by (simp add: getRandomSriLankanCoordinates_def)
  with x y show ?thesis by (simp add: in_bounds_def)
qed

text \<open>
  C29. \<open>getRandomSriLankanCoordinates\<close> always returns (both bounds are proper
  intervals, so faker never throws) and, with a source that keeps its contract, its
  point lies inside \<open>SRI_LANKA_BOUNDS\<close>; it draws the latitude first.
\<close>

theorem getRandomSriLankanCoordinates_total:
  assumes "rng_ok g"
  shows "\<exists>p s'. getRandomSriLankanCoordinates g s = Inr (p, s') \<and> in_bounds SRI_LANKA_BOUNDS p \<and>
           latitude p = fst (rng_next g s) * (maxLat SRI_LANKA_BOUNDS - minLat SRI_LANKA_BOUNDS) + minLat SRI_LANKA_BOUNDS"
proof -
  obtain p s' where r: "getRandomSriLankanCoordinates g s = Inr (p, s')"
    using getRandomSriLankanCoordinates_ok [of g s] by blast
  moreover have "in_bounds SRI_LANKA_BOUNDS p" by (rule getRandomSriLankanCoordinates_in_bounds [OF assms r])
  moreover have "latitude p = fst (rng_next g s) * (maxLat SRI_LANKA_BOUNDS - minLat SRI_LANKA_BOUNDS) + minLat SRI_LANKA_BOUNDS"
    using r by (auto simp add: getRandomSriLankanCoordinates_def faker_float_def SRI_LANKA_BOUNDS_def split: prod.splits)
  ultimately show ?thesis by blast
qed

lemma getRandomSriLankanCoordinates_total_witness:
  "rng_ok demo_rng \<and> (\<exists>p s'. getRandomSriLankanCoordinates demo_rng 0 = Inr (p, s') \<and>
     in_bounds SRI_LANKA_BOUNDS p \<and> latitude p = 7.877)"
  using getRandomSriLankanCoordinates_total [OF demo_rng_ok, of 0] demo_rng_ok
  by (simp add: demo_rng_def SRI_LANKA_BOUNDS_def)

end
