(* ===== verification/Route.thy ===== *)
theory Route
  imports Geo
begin

text \<open>
  The route builder, \<open>generatePathSegments(startCoords, endCoords, numSegments)\<close> of
  \<open>src/dataGenerator.js\<close> (lines 26--44). The two increments are computed once; the
  \<open>for\<close> loop counts \<open>i\<close> up from 0 while \<open>i < numSegments\<close> and pushes segment
  \<open>i\<close>, from \<open>start + increment * i\<close> to \<open>start + increment * (i + 1)\<close>. The loop is
  \<open>path_segments_loop\<close> (a \<^theory_text>\<open>function\<close> with the measure
  \<open>numSegments - i\<close>); \<open>numSegments\<close> is a number and may be zero or negative, in
  which case the loop does not run.

  The lemmas give the closed form of the loop (\<open>generatePathSegments_eq\<close>), the
  length, the endpoints, the chaining of consecutive segments, the equal displacement
  of every segment and the containment of every segment in any box that holds the two
  endpoints.
\<close>

definition segment_at :: "geo_point \<Rightarrow> real \<Rightarrow> real \<Rightarrow> nat \<Rightarrow> segment" where
  "segment_at startCoords latIncrement lngIncrement i =
     \<lparr>seg_start = \<lparr>latitude = latitude startCoords + latIncrement * real i,
                   longitude = longitude startCoords + lngIncrement * real i\<rparr>,
      seg_end = \<lparr>latitude = latitude startCoords + latIncrement * real (i + 1),
                 longitude = longitude startCoords + lngIncrement * real (i + 1)\<rparr>\<rparr>"

function path_segments_loop ::
  "geo_point \<Rightarrow> real \<Rightarrow> real \<Rightarrow> int \<Rightarrow> nat \<Rightarrow> segment list \<Rightarrow> segment list" where
  "path_segments_loop startCoords latIncrement lngIncrement numSegments i segments =
     (if int i < numSegments
      then path_segments_loop startCoords latIncrement lngIncrement numSegments (Suc i)
             (segments @ [segment_at startCoords latIncrement lngIncrement i])
      else segments)"
  by pat_completeness auto
termination
  by (relation "measure (\<lambda>(_, _, _, n, i, _). nat (n - int i))") auto

declare path_segments_loop.simps [simp del]

definition generatePathSegments :: "geo_point \<Rightarrow> geo_point \<Rightarrow> int \<Rightarrow> segment list" where
  "generatePathSegments startCoords endCoords numSegments =
     (let latIncrement = (latitude endCoords - latitude startCoords) / of_int numSegments;
          lngIncrement = (longitude endCoords - longitude startCoords) / of_int numSegments
      in path_segments_loop startCoords latIncrement lngIncrement numSegments 0 [])"

section \<open>The loop in closed form\<close>

lemma path_segments_loop_eq:
  "path_segments_loop p a b n i segs = segs @ map (segment_at p a b) [i..<nat n]"
proof (induction p a b n i segs rule: path_segments_loop.induct)
  case (1 p a b n i segs)
  show ?case
  proof (cases "int i < n")
    case True
    then have "[i..<nat n] = i # [Suc i..<nat n]"
      by (simp add: upt_rec)
    with True "1.IH" show ?thesis
      by (simp add: path_segments_loop.simps [of p a b n i segs])
  next
    case False
    then show ?thesis
      by (simp add: path_segments_loop.simps [of p a b n i segs])
  qed
qed

lemma generatePathSegments_eq:
  "generatePathSegments s e n =
     map (segment_at s ((latitude e - latitude s) / of_int n) ((longitude e - longitude s) / of_int n))
       [0..<nat n]"
  by (simp add: generatePathSegments_def path_segments_loop_eq)

lemma generatePathSegments_nth:
  "i < nat n \<Longrightarrow> generatePathSegments s e n ! i =
     segment_at s ((latitude e - latitude s) / of_int n) ((longitude e - longitude s) / of_int n) i"
  by (simp add: generatePathSegments_eq)

lemma length_generatePathSegments [simp]: "length (generatePathSegments s e n) = nat n"
  by (simp add: generatePathSegments_eq)

section \<open>Containment in a box\<close>

lemma segment_at_in_bounds:
  assumes "in_bounds b s" "in_bounds b e" "i < nat n"
  shows "in_bounds b (seg_start (segment_at s ((latitude e - latitude s) / of_int n) ((longitude e - longitude s) / of_int n) i)) \<and>
         in_bounds b (seg_end (segment_at s ((latitude e - latitude s) / of_int n) ((longitude e - longitude s) / of_int n) i))"
proof -
  have n: "0 < n" using assms(3) by simp
  have t: "0 \<le> real k / of_int n \<and> real k / of_int n \<le> 1" if "k \<le> nat n" for k
    using that n by (simp add: divide_le_eq_1)
  have "in_bounds b \<lparr>latitude = latitude s + (latitude e - latitude s) * (real k / of_int n),
                     longitude = longitude s + (longitude e - longitude s) * (real k / of_int n)\<rparr>"
    if "k \<le> nat n" for k
    using in_bounds_lerp [OF assms(1,2)] t [OF that] by blast
  from this [of i] this [of "Suc i"] assms(3) show ?thesis
    by (simp add: segment_at_def)
qed
lemma generatePathSegments_in_bounds:
  "in_bounds b s \<Longrightarrow> in_bounds b e \<Longrightarrow> seg \<in> set (generatePathSegments s e n) \<Longrightarrow>
   in_bounds b (seg_start seg) \<and> in_bounds b (seg_end seg)"
  by (auto simp add: generatePathSegments_eq segment_at_in_bounds)

section \<open>Properties of the route builder\<close>

text \<open>
  C5. For a positive segment count \<open>generatePathSegments\<close> returns exactly that many
  segments; the first starts at the start point and the last ends at the end point.
\<close>

theorem generatePathSegments_endpoints:
  assumes "0 < numSegments"
  shows "length (generatePathSegments s e numSegments) = nat numSegments \<and>
         seg_start (hd (generatePathSegments s e numSegments)) = s \<and>
         seg_end (last (generatePathSegments s e numSegments)) = e"
proof -
  let ?a = "(latitude e - latitude s) / of_int numSegments"
  let ?b = "(longitude e - longitude s) / of_int numSegments"
  have ne: "[0..<nat numSegments] \<noteq> []" using assms by simp
  have h: "hd (generatePathSegments s e numSegments) = segment_at s ?a ?b 0"
    using ne by (simp add: generatePathSegments_eq hd_map)
  have l: "last (generatePathSegments s e numSegments) = segment_at s ?a ?b (nat numSegments - 1)"
    using ne by (simp add: generatePathSegments_eq last_map)
  have r: "real (nat numSegments - 1 + 1) = of_int numSegments"
    using assms by simp
  have nz: "(of_int numSegments :: real) \<noteq> 0" using assms by simp
  have "seg_end (segment_at s ?a ?b (nat numSegments - 1)) = e"
    unfolding segment_at_def r using nz by simp
  then show ?thesis using h l by (simp add: segment_at_def)
qed

text \<open>
  C6. Consecutive segments are chained: the end of segment \<open>i\<close> is the start of segment
  \<open>i + 1\<close> (both are computed as \<open>start + increment * (i + 1)\<close>).
\<close>

theorem generatePathSegments_contiguous:
  "Suc i < length (generatePathSegments s e n) \<Longrightarrow>
   seg_end (generatePathSegments s e n ! i) = seg_start (generatePathSegments s e n ! Suc i)"
  by (simp add: generatePathSegments_nth segment_at_def)

text \<open>
  C7. Every segment has the same displacement, \<open>(end - start) / numSegments\<close> in
  each coordinate: the line is cut into equal parts.
\<close>

theorem generatePathSegments_equal_steps:
  assumes "i < length (generatePathSegments s e n)"
  shows "latitude (seg_end (generatePathSegments s e n ! i)) - latitude (seg_start (generatePathSegments s e n ! i))
           = (latitude e - latitude s) / of_int n \<and>
         longitude (seg_end (generatePathSegments s e n ! i)) - longitude (seg_start (generatePathSegments s e n ! i))
           = (longitude e - longitude s) / of_int n"
  using assms by (simp add: generatePathSegments_nth segment_at_def ring_distribs)

text \<open>
  C14. A segment count of zero or less makes the loop run zero times: the result is the
  empty route, not an error (the specification asks for InvalidArgument).
\<close>

theorem generatePathSegments_nonpositive:
  "numSegments \<le> 0 \<Longrightarrow> generatePathSegments s e numSegments = []"
  by (simp add: generatePathSegments_eq)


section \<open>Witnesses\<close>

lemma generatePathSegments_endpoints_witness:
  "0 < (2::int) \<and> length (generatePathSegments \<lparr>latitude = 6.0, longitude = 80.0\<rparr> \<lparr>latitude = 7.0, longitude = 81.0\<rparr> 2) = 2 \<and>
   seg_start (hd (generatePathSegments \<lparr>latitude = 6.0, longitude = 80.0\<rparr> \<lparr>latitude = 7.0, longitude = 81.0\<rparr> 2)) = \<lparr>latitude = 6.0, longitude = 80.0\<rparr> \<and> seg_end (last (generatePathSegments \<lparr>latitude = 6.0, longitude = 80.0\<rparr> \<lparr>latitude = 7.0, longitude = 81.0\<rparr> 2)) = \<lparr>latitude = 7.0, longitude = 81.0\<rparr>"
  using generatePathSegments_endpoints [of 2 "\<lparr>latitude = 6.0, longitude = 80.0\<rparr>" "\<lparr>latitude = 7.0, longitude = 81.0\<rparr>"] by simp

lemma generatePathSegments_contiguous_witness:
  "Suc 0 < length (generatePathSegments \<lparr>latitude = 6.0, longitude = 80.0\<rparr> \<lparr>latitude = 7.0, longitude = 81.0\<rparr> 2) \<and>
   seg_end ((generatePathSegments \<lparr>latitude = 6.0, longitude = 80.0\<rparr> \<lparr>latitude = 7.0, longitude = 81.0\<rparr> 2) ! 0) = seg_start ((generatePathSegments \<lparr>latitude = 6.0, longitude = 80.0\<rparr> \<lparr>latitude = 7.0, longitude = 81.0\<rparr> 2) ! Suc 0)"
  using generatePathSegments_contiguous [of 0 "\<lparr>latitude = 6.0, longitude = 80.0\<rparr>" "\<lparr>latitude = 7.0, longitude = 81.0\<rparr>" 2] by simp

lemma generatePathSegments_equal_steps_witness:
  "0 < length (generatePathSegments \<lparr>latitude = 6.0, longitude = 80.0\<rparr> \<lparr>latitude = 7.0, longitude = 81.0\<rparr> 2) \<and>
   latitude (seg_end ((generatePathSegments \<lparr>latitude = 6.0, longitude = 80.0\<rparr> \<lparr>latitude = 7.0, longitude = 81.0\<rparr> 2) ! 0)) - latitude (seg_start ((generatePathSegments \<lparr>latitude = 6.0, longitude = 80.0\<rparr> \<lparr>latitude = 7.0, longitude = 81.0\<rparr> 2) ! 0)) = 1 / 2"
  using generatePathSegments_equal_steps [of 0 "\<lparr>latitude = 6.0, longitude = 80.0\<rparr>" "\<lparr>latitude = 7.0, longitude = 81.0\<rparr>" 2] by simp

lemma generatePathSegments_nonpositive_witness:
  "(0::int) \<le> 0 \<and> generatePathSegments \<lparr>latitude = 6.0, longitude = 80.0\<rparr> \<lparr>latitude = 7.0, longitude = 81.0\<rparr> 0 = []"
  using generatePathSegments_nonpositive [of 0 "\<lparr>latitude = 6.0, longitude = 80.0\<rparr>" "\<lparr>latitude = 7.0, longitude = 81.0\<rparr>"] by simp

end
