(* ===== verification/JsDate.thy ===== *)
theory JsDate
  imports Prelude
begin

text \<open>
  The part of the JavaScript \<open>Date\<close> object the synthesizer uses, modelled from
  ECMA-262 (section 21.4): a date is its time value, milliseconds since the epoch in UTC
  (\<open>new Date(d)\<close> copies it); \<open>getMinutes\<close> reads the minute field of the local
  time; \<open>setMinutes(m)\<close> rebuilds the local time with minute field \<open>m\<close> (a value of
  60 or more carries into the hours and days through \<open>MakeTime\<close>/\<open>MakeDate\<close>) and
  converts it back to UTC. The host time zone is a parameter: \<open>utc_offset t\<close> is
  LocalTZA(t, true), the offset at UTC time \<open>t\<close>, and \<open>local_offset l\<close> is
  LocalTZA(l, false), the offset chosen for local time \<open>l\<close> (where daylight saving
  makes \<open>l\<close> ambiguous or skipped, the offset before the transition).
  TimeClip (dates beyond \<open>\<plusminus>8.64e15\<close> ms become invalid) is not modelled: the
  generator's dates stay within 90 days of the current date.
\<close>

type_synonym time_value = int

record timezone =
  utc_offset :: "time_value \<Rightarrow> int"
  local_offset :: "time_value \<Rightarrow> int"

definition msPerDay :: int where "msPerDay = 86400000"
definition msPerHour :: int where "msPerHour = 3600000"
definition msPerMinute :: int where "msPerMinute = 60000"
definition msPerSecond :: int where "msPerSecond = 1000"

definition LocalTime :: "timezone \<Rightarrow> time_value \<Rightarrow> time_value" where
  "LocalTime tz t = t + utc_offset tz t"

definition UTC :: "timezone \<Rightarrow> time_value \<Rightarrow> time_value" where
  "UTC tz l = l - local_offset tz l"

definition Day :: "time_value \<Rightarrow> int" where
  "Day t = t div msPerDay"

definition HourFromTime :: "time_value \<Rightarrow> int" where
  "HourFromTime t = (t div msPerHour) mod 24"

definition MinFromTime :: "time_value \<Rightarrow> int" where
  "MinFromTime t = (t div msPerMinute) mod 60"

definition SecFromTime :: "time_value \<Rightarrow> int" where
  "SecFromTime t = (t div msPerSecond) mod 60"

definition msFromTime :: "time_value \<Rightarrow> int" where
  "msFromTime t = t mod msPerSecond"

definition MakeTime :: "int \<Rightarrow> int \<Rightarrow> int \<Rightarrow> int \<Rightarrow> int" where
  "MakeTime h m s milli = h * msPerHour + m * msPerMinute + s * msPerSecond + milli"

definition MakeDate :: "int \<Rightarrow> int \<Rightarrow> time_value" where
  "MakeDate day time = day * msPerDay + time"

definition getMinutes :: "timezone \<Rightarrow> time_value \<Rightarrow> int" where
  "getMinutes tz t = MinFromTime (LocalTime tz t)"

definition setMinutes :: "timezone \<Rightarrow> time_value \<Rightarrow> int \<Rightarrow> time_value" where
  "setMinutes tz t m =
     (let lt = LocalTime tz t
      in UTC tz (MakeDate (Day lt) (MakeTime (HourFromTime lt) m (SecFromTime lt) (msFromTime lt))))"

text \<open>A zone without daylight saving: one offset everywhere (Sri Lanka, UTC).\<close>

definition fixed_zone :: "int \<Rightarrow> timezone" where
  "fixed_zone c = \<lparr>utc_offset = (\<lambda>_. c), local_offset = (\<lambda>_. c)\<rparr>"

text \<open>
  A zone that leaves daylight saving time at UTC time 0: one hour ahead before, zero
  after. Local times in \<open>[0, 1 h)\<close> occur twice and take the offset before the
  transition, as ECMA-262 prescribes for LocalTZA(l, false).
\<close>

definition fallback_zone :: timezone where
  "fallback_zone =
     \<lparr>utc_offset = (\<lambda>t. if t < 0 then 3600000 else 0),
      local_offset = (\<lambda>l. if l < 3600000 then 3600000 else 0)\<rparr>"

section \<open>Lemmas\<close>

text \<open>A time value is the sum of its fields.\<close>

lemma time_fields_sum:
  "(x::int) = Day x * msPerDay + HourFromTime x * msPerHour + MinFromTime x * msPerMinute
             + SecFromTime x * msPerSecond + msFromTime x"
proof -
  have a: "x div 60000 = x div 1000 div 60" by (simp add: zdiv_zmult2_eq [symmetric])
  have b: "x div 3600000 = x div 1000 div 60 div 60" by (simp add: zdiv_zmult2_eq [symmetric])
  have c: "x div 86400000 = x div 1000 div 60 div 60 div 24" by (simp add: zdiv_zmult2_eq [symmetric])
  show ?thesis
    unfolding Day_def HourFromTime_def MinFromTime_def SecFromTime_def msFromTime_def
      msPerDay_def msPerHour_def msPerMinute_def msPerSecond_def a b c
    by presburger
qed

text \<open>
  \<open>d.setMinutes(d.getMinutes() + k)\<close> moves the local time forward by exactly
  \<open>k\<close> minutes and converts back to UTC.
\<close>

lemma setMinutes_getMinutes_plus:
  "setMinutes tz t (getMinutes tz t + k) = UTC tz (LocalTime tz t + k * msPerMinute)"
proof -
  let ?lt = "LocalTime tz t"
  have "MakeDate (Day ?lt) (MakeTime (HourFromTime ?lt) (MinFromTime ?lt + k) (SecFromTime ?lt)
          (msFromTime ?lt)) = ?lt + k * msPerMinute"
    using time_fields_sum [of ?lt] by (simp add: MakeDate_def MakeTime_def algebra_simps)
  then show ?thesis
    by (simp add: setMinutes_def getMinutes_def Let_def)
qed

lemma setMinutes_fixed_zone:
  "setMinutes (fixed_zone c) t (getMinutes (fixed_zone c) t + k) = t + k * 60000"
  by (simp add: setMinutes_getMinutes_plus fixed_zone_def UTC_def LocalTime_def msPerMinute_def)

end
