(* ===== verification/Uuid.thy ===== *)
theory Uuid
  imports Faker
begin

unbundle bit_operations_syntax

text \<open>
  The \<open>uuid\<close> package's \<open>v4()\<close>, which \<open>generateLocationData\<close> calls for every
  \<open>location_id\<close>. The package is not part of the repository; it is modelled from its
  source (uuid v9, \<open>v4.js\<close> and \<open>stringify.js\<close>): 16 random bytes \<open>rnds\<close> from
  the crypto source, the version nibble set in byte 6 (\<open>(rnds[6] & 0x0f) | 0x40\<close>) and
  the RFC 4122 variant bits in byte 8 (\<open>(rnds[8] & 0x3f) | 0x80\<close>), then
  \<open>unsafeStringify\<close>: two lowercase hexadecimal digits per byte (the \<open>byteToHex\<close>
  table) in groups of 4, 2, 2, 2 and 6 bytes separated by dashes. Bytes are \<open>8 word\<close>.
  \<open>uuid_parse\<close> reads such a string back into its bytes; it is the decoder of the
  round-trip lemma, from which the string is seen to determine the 122 random bits.
\<close>

definition HEX_DIGITS :: string where
  "HEX_DIGITS = ''0123456789abcdef''"

definition byteToHex :: "8 word \<Rightarrow> string" where
  "byteToHex b = [HEX_DIGITS ! unat (drop_bit 4 b), HEX_DIGITS ! unat (take_bit 4 b)]"

definition hex_group :: "8 word list \<Rightarrow> string" where
  "hex_group bs = concat (map byteToHex bs)"

definition unsafeStringify :: "8 word list \<Rightarrow> string" where
  "unsafeStringify arr =
     hex_group (take 4 arr) @ ''-'' @ hex_group (take 2 (drop 4 arr)) @ ''-'' @
     hex_group (take 2 (drop 6 arr)) @ ''-'' @ hex_group (take 2 (drop 8 arr)) @ ''-'' @
     hex_group (take 6 (drop 10 arr))"

definition set_version_bits :: "8 word list \<Rightarrow> 8 word list" where
  "set_version_bits rnds =
     rnds[6 := (rnds ! 6 AND 0x0f) OR 0x40, 8 := (rnds ! 8 AND 0x3f) OR 0x80]"

definition uuidv4 :: "'s rng \<Rightarrow> 's \<Rightarrow> string \<times> 's" where
  "uuidv4 g s = (let (rnds, s') = rng_bytes g s in (unsafeStringify (set_version_bits rnds), s'))"

fun digit_value :: "string \<Rightarrow> char \<Rightarrow> nat option" where
  "digit_value [] c = None"
| "digit_value (d # ds) c = (if d = c then Some 0 else map_option Suc (digit_value ds c))"

fun hex_bytes :: "string \<Rightarrow> 8 word list option" where
  "hex_bytes [] = Some []"
| "hex_bytes [c] = None"
| "hex_bytes (h # l # cs) =
     (case (digit_value HEX_DIGITS h, digit_value HEX_DIGITS l, hex_bytes cs) of
        (Some x, Some y, Some bs) \<Rightarrow> Some (word_of_nat (16 * x + y) # bs)
      | _ \<Rightarrow> None)"

definition uuid_parse :: "string \<Rightarrow> 8 word list option" where
  "uuid_parse str =
     (if length str = 36 \<and> str ! 8 = CHR ''-'' \<and> str ! 13 = CHR ''-'' \<and>
         str ! 18 = CHR ''-'' \<and> str ! 23 = CHR ''-''
      then hex_bytes (filter (\<lambda>c. c \<noteq> CHR ''-'') str) else None)"

section \<open>Bytes and nibbles\<close>

lemma unat_high_nibble: "unat (drop_bit 4 (b::8 word)) = unat b div 16"
proof -
  have "unat (drop_bit 4 b) = drop_bit 4 (unat b)" by (rule unat_drop_bit_eq)
  then show ?thesis by (simp add: drop_bit_eq_div)
qed

lemma unat_low_nibble: "unat (take_bit 4 (b::8 word)) = unat b mod 16"
proof -
  have "unat (take_bit 4 b) = take_bit 4 (unat b)" by (rule unsigned_take_bit_eq)
  then show ?thesis by (simp add: take_bit_eq_mod)
qed

lemma unat_byte_less: "unat (b::8 word) < 256"
  using unsigned_less [of b] by simp

lemma nibbles_less:
  "unat (drop_bit 4 (b::8 word)) < 16" "unat (take_bit 4 (b::8 word)) < 16"
  using unat_byte_less [of b] by (simp_all add: unat_high_nibble unat_low_nibble)

lemma byte_of_nibbles: "word_of_nat (16 * unat (drop_bit 4 b) + unat (take_bit 4 b)) = (b::8 word)"
proof -
  have "16 * unat (drop_bit 4 b) + unat (take_bit 4 b) = unat b"
    by (simp add: unat_high_nibble unat_low_nibble)
  then show ?thesis by simp
qed

lemma mask_15: "(15::8 word) = mask 4"
  by (simp add: mask_eq_exp_minus_1)

lemma mask_63: "(63::8 word) = mask 6"
  by (simp add: mask_eq_exp_minus_1)


lemma version_byte_low: "take_bit 4 (((b::8 word) AND 0x0f) OR 0x40) = take_bit 4 b"
  by (rule bit_word_eqI) (auto simp add: bit_simps mask_15)


lemma variant_byte_low: "take_bit 4 (((b::8 word) AND 0x3f) OR 0x80) = take_bit 4 b"
  by (rule bit_word_eqI) (auto simp add: bit_simps mask_63)

section \<open>The text form and its decoder\<close>

lemma digit_value_nth: "distinct ds \<Longrightarrow> d < length ds \<Longrightarrow> digit_value ds (ds ! d) = Some d"
proof (induction ds arbitrary: d)
  case Nil then show ?case by simp
next
  case (Cons x xs)
  then show ?case by (cases d) (auto simp: nth_mem)
qed

lemma digit_value_hex: "d < 16 \<Longrightarrow> digit_value HEX_DIGITS (HEX_DIGITS ! d) = Some d"
  by (rule digit_value_nth) (simp_all add: HEX_DIGITS_def)

lemma dash_not_hex: "CHR ''-'' \<notin> set HEX_DIGITS" by (simp add: HEX_DIGITS_def)

lemma length_HEX_DIGITS: "length HEX_DIGITS = 16"
  by (simp add: HEX_DIGITS_def)

lemma byteToHex_hex: "set (byteToHex b) \<subseteq> set HEX_DIGITS"
  using nibbles_less [of b] by (simp add: byteToHex_def length_HEX_DIGITS)

lemma byteToHex_no_dash: "CHR ''-'' \<notin> set (byteToHex b)"
  using byteToHex_hex [of b] dash_not_hex by blast

lemma hex_bytes_hex_group: "hex_bytes (hex_group bs) = Some bs"
proof (induction bs)
  case Nil then show ?case by (simp add: hex_group_def)
next
  case (Cons b bs)
  then show ?case
    by (simp add: hex_group_def byteToHex_def digit_value_hex nibbles_less byte_of_nibbles
        del: of_nat_add of_nat_mult)
qed

lemma length_byteToHex [simp]: "length (byteToHex b) = 2" by (simp add: byteToHex_def)

lemma length_hex_group [simp]: "length (hex_group bs) = 2 * length bs"
  by (induction bs) (simp_all add: hex_group_def)

lemma filter_hex_group: "filter (\<lambda>c. c \<noteq> CHR ''-'') (hex_group bs) = hex_group bs"
  by (auto simp: filter_id_conv hex_group_def byteToHex_no_dash)

lemma hex_group_append: "hex_group (xs @ ys) = hex_group xs @ hex_group ys"
  by (simp add: hex_group_def)

lemma length_16_cases:
  assumes "length (xs::'a list) = 16"
  obtains a0 a1 a2 a3 a4 a5 a6 a7 a8 a9 a10 a11 a12 a13 a14 a15
  where "xs = [a0, a1, a2, a3, a4, a5, a6, a7, a8, a9, a10, a11, a12, a13, a14, a15]"
  using assms by (auto simp add: length_Suc_conv numeral_eq_Suc)

lemma filter_unsafeStringify:
  "length arr = 16 \<Longrightarrow> filter (\<lambda>c. c \<noteq> CHR ''-'') (unsafeStringify arr) = hex_group arr"
  by (erule length_16_cases) (simp add: unsafeStringify_def hex_group_append [symmetric] filter_hex_group)

lemma unsafeStringify_positions:
  assumes "length arr = 16"
  shows "length (unsafeStringify arr) = 36 \<and> unsafeStringify arr ! 8 = CHR ''-'' \<and>
         unsafeStringify arr ! 13 = CHR ''-'' \<and> unsafeStringify arr ! 18 = CHR ''-'' \<and>
         unsafeStringify arr ! 23 = CHR ''-'' \<and>
         unsafeStringify arr ! 14 = HEX_DIGITS ! unat (drop_bit 4 (arr ! 6)) \<and>
         unsafeStringify arr ! 19 = HEX_DIGITS ! unat (drop_bit 4 (arr ! 8))"
  using assms by (elim length_16_cases) (simp add: unsafeStringify_def hex_group_def byteToHex_def)

lemma parse_stringify_16: "length arr = 16 \<Longrightarrow> uuid_parse (unsafeStringify arr) = Some arr"
  using unsafeStringify_positions filter_unsafeStringify hex_bytes_hex_group by (simp add: uuid_parse_def)


section \<open>Identifiers drawn by v4\<close>


lemma length_set_version_bits [simp]: "length (set_version_bits rnds) = length rnds"
  by (simp add: set_version_bits_def)



text \<open>
  C19. Two identifiers drawn by \<open>uuidv4\<close> are equal exactly when the two 16-byte draws
  agree after the version and variant bits are set: the identifier determines the 122
  random bits and nothing else, so the uniqueness of the ids is exactly the uniqueness
  of the crypto draws.
\<close>

theorem uuidv4_eq_iff:
  assumes "rng_ok g" and "uuidv4 g s1 = (u1, s1')" and "uuidv4 g s2 = (u2, s2')"
  shows "u1 = u2 \<longleftrightarrow> set_version_bits (fst (rng_bytes g s1)) = set_version_bits (fst (rng_bytes g s2))"
proof -
  obtain r1 t1 where r1: "rng_bytes g s1 = (r1, t1)" by fastforce
  obtain r2 t2 where r2: "rng_bytes g s2 = (r2, t2)" by fastforce
  from assms r1 r2 have l: "length r1 = 16" "length r2 = 16"
    and u: "u1 = unsafeStringify (set_version_bits r1)" "u2 = unsafeStringify (set_version_bits r2)"
    by (auto simp add: rng_ok_bytes uuidv4_def)
  have "set_version_bits r1 = set_version_bits r2" if "u1 = u2"
  proof -
    have "Some (set_version_bits r1) = uuid_parse u1"
      using parse_stringify_16 [of "set_version_bits r1"] l(1) u(1) by simp
    also have "\<dots> = uuid_parse u2" using that by simp
    also have "\<dots> = Some (set_version_bits r2)"
      using parse_stringify_16 [of "set_version_bits r2"] l(2) u(2) by simp
    finally show ?thesis by simp
  qed
  then show ?thesis using u r1 r2 by auto
qed




lemma uuidv4_eq_iff_witness:
  "rng_ok demo_rng \<and> (fst (uuidv4 demo_rng 0) = fst (uuidv4 demo_rng 1) \<longleftrightarrow>
     set_version_bits (fst (rng_bytes demo_rng 0)) = set_version_bits (fst (rng_bytes demo_rng 1)))"
  using uuidv4_eq_iff [OF demo_rng_ok, of 0 "fst (uuidv4 demo_rng 0)" "snd (uuidv4 demo_rng 0)"
      1 "fst (uuidv4 demo_rng 1)" "snd (uuidv4 demo_rng 1)"] demo_rng_ok
  by simp

end
