(* ===== verification/Telemetry.thy ===== *)
theory Telemetry
  imports Geo JsDate Uuid
begin

text \<open>
  The telemetry synthesizer, \<open>generateLocationData(train_id, startDate, numEntries,
  segments)\<close> of \<open>src/dataGenerator.js\<close> (lines 46--70). The loop counts \<open>i\<close> from 0
  while \<open>i < numEntries\<close>. Each iteration (\<open>location_entry\<close>) computes the bucket size
  \<open>numEntries / segments.length\<close>, the segment index \<open>Math.floor(i / bucket)\<close>, reads
  \<open>segments[segmentIndex]\<close> (\<open>undefined\<close> out of range), the progress
  \<open>(i % bucket) / bucket\<close>, draws a \<open>uuidv4()\<close>, reads \<open>segment.start\<close> (a
  \<open>TypeError\<close> when the segment is \<open>undefined\<close>), interpolates, and draws the speed
  (\<open>faker.number.int({min: 30, max: 120})\<close>) and the direction (\<open>{min: 0, max: 360}\<close>),
  in the order of the object literal. After the push the date advances by
  \<open>currentDate.setMinutes(currentDate.getMinutes() + DATA_INTERVAL_MINUTES)\<close>
  (\<open>date_step\<close>). The random state is threaded through the draws and returned with the
  records so that the caller continues from it.

  \<open>bucket_point\<close> is the reference position of sample \<open>i\<close>: segment
  \<open>i * S div N\<close> at the fractional part of \<open>i * S / N\<close>; the lemmas show that the
  floating-point expressions of the code compute it, that the loop returns exactly
  \<open>numEntries\<close> records whenever the route is non-empty, and what each record holds.
\<close>

record location =
  location_id :: string
  train_id :: int
  timestamp :: time_value
  loc_latitude :: real
  loc_longitude :: real
  speed :: int
  direction :: int

definition DATA_INTERVAL_MINUTES :: int where
  "DATA_INTERVAL_MINUTES = 1"

definition date_step :: "timezone \<Rightarrow> time_value \<Rightarrow> time_value" where
  "date_step tz currentDate =
     setMinutes tz currentDate (getMinutes tz currentDate + DATA_INTERVAL_MINUTES)"

definition location_entry ::
  "'s rng \<Rightarrow> int \<Rightarrow> int \<Rightarrow> segment list \<Rightarrow> nat \<Rightarrow> time_value \<Rightarrow> 's \<Rightarrow> (location \<times> 's) result" where
  "location_entry g trainId numEntries segments i currentDate s =
     (let bucket = of_int numEntries / real (length segments);
          segmentIndex = \<lfloor>real i / bucket\<rfloor>;
          segmentProgress = js_rem (real i) bucket / bucket;
          (lid, s1) = uuidv4 g s
      in case nth_opt segments segmentIndex of
           None \<Rightarrow> Inl TypeError
         | Some segment \<Rightarrow>
             bind_res (faker_int g 30 120 s1) (\<lambda>(spd, s2).
             bind_res (faker_int g 0 360 s2) (\<lambda>(dir, s3).
             Inr (\<lparr>location_id = lid, train_id = trainId, timestamp = currentDate,
                   loc_latitude = latitude (seg_start segment) +
                     (latitude (seg_end segment) - latitude (seg_start segment)) * segmentProgress,
                   loc_longitude = longitude (seg_start segment) +
                     (longitude (seg_end segment) - longitude (seg_start segment)) * segmentProgress,
                   speed = spd, direction = dir\<rparr>, s3))))"

function location_loop ::
  "'s rng \<Rightarrow> timezone \<Rightarrow> int \<Rightarrow> int \<Rightarrow> segment list \<Rightarrow> nat \<Rightarrow> time_value \<Rightarrow> 's \<Rightarrow>
   location list \<Rightarrow> (location list \<times> 's) result" where
  "location_loop g tz trainId numEntries segments i currentDate s locationData =
     (if int i < numEntries
      then (case location_entry g trainId numEntries segments i currentDate s of
              Inl e \<Rightarrow> Inl e
            | Inr (loc, s') \<Rightarrow>
                location_loop g tz trainId numEntries segments (Suc i) (date_step tz currentDate) s'
                  (locationData @ [loc]))
      else Inr (locationData, s))"
  by pat_completeness auto
termination
  by (relation "measure (\<lambda>(_, _, _, n, _, i, _, _, _). nat (n - int i))") auto

declare location_loop.simps [simp del]

definition generateLocationData ::
  "'s rng \<Rightarrow> timezone \<Rightarrow> int \<Rightarrow> time_value \<Rightarrow> int \<Rightarrow> segment list \<Rightarrow> 's \<Rightarrow>
   (location list \<times> 's) result" where
  "generateLocationData g tz trainId startDate numEntries segments s =
     location_loop g tz trainId numEntries segments 0 startDate s []"

text \<open>A one-segment route for the examples.\<close>

abbreviation demo_route :: "segment list" where
  "demo_route \<equiv> [\<lparr>seg_start = \<lparr>latitude = 6, longitude = 80\<rparr>, seg_end = \<lparr>latitude = 7, longitude = 81\<rparr>\<rparr>]"

text \<open>The reference position of sample \<open>i\<close> of \<open>n\<close> on a route.\<close>

definition bucket_point :: "segment list \<Rightarrow> nat \<Rightarrow> nat \<Rightarrow> geo_point" where
  "bucket_point segs n i =
     (let seg = segs ! (i * length segs div n);
          t = frac (real (i * length segs) / real n)
      in \<lparr>latitude = latitude (seg_start seg) + (latitude (seg_end seg) - latitude (seg_start seg)) * t,
          longitude = longitude (seg_start seg) + (longitude (seg_end seg) - longitude (seg_start seg)) * t\<rparr>)"

section \<open>Index and progress\<close>

lemma segment_index_eq:
  assumes "0 < numEntries" "0 < S"
  shows "\<lfloor>real i / (of_int numEntries / real S)\<rfloor> = int (i * S div nat numEntries)"
proof -
  have e: "real i / (of_int numEntries / real S) = real (i * S) / real (nat numEntries)"
    using assms by simp
  show ?thesis unfolding e by (rule floor_divide_of_nat_eq)
qed

lemma segment_index_less:
  fixes i n S :: nat
  assumes "i < n" "0 < S"
  shows "i * S div n < S"
proof -
  have "i * S < n * S" using assms by (intro mult_strict_right_mono) auto
  then show ?thesis by (simp add: div_less_iff_less_mult mult.commute)
qed

lemma segment_progress_eq:
  assumes "0 < numEntries" "0 < S"
  shows "js_rem (real i) (of_int numEntries / real S) / (of_int numEntries / real S) =
         frac (real (i * S) / real (nat numEntries))"
proof -
  let ?b = "of_int numEntries / real S :: real"
  have "0 < ?b" using assms by simp
  then have "js_rem (real i) ?b / ?b = frac (real i / ?b)"
    by (intro js_rem_div_frac) simp_all
  also have "real i / (of_int numEntries / real S) = real (i * S) / real (nat numEntries)"
    using assms by simp
  finally show ?thesis .
qed

section \<open>One iteration\<close>

lemma faker_int_draw:
  "lo < hi \<Longrightarrow> faker_int g lo hi s =
     Inr (\<lfloor>fst (rng_next g s) * of_int (hi + 1 - lo) + of_int lo\<rfloor>, snd (rng_next g s))"
  by (simp add: faker_int_def split: prod.split)

lemma location_entry_ok:
  assumes "segments \<noteq> []" "int i < numEntries"
  shows "\<exists>loc s'. location_entry g trainId numEntries segments i t s = Inr (loc, s') \<and>
           location_id loc = fst (uuidv4 g s) \<and> train_id loc = trainId \<and> timestamp loc = t \<and>
           loc_latitude loc = latitude (bucket_point segments (nat numEntries) i) \<and>
           loc_longitude loc = longitude (bucket_point segments (nat numEntries) i)"
proof -
  let ?S = "length segments" and ?N = "nat numEntries"
  have N: "0 < numEntries" and S: "0 < ?S" using assms by auto
  have iN: "i < ?N" using assms(2) by simp
  have idx: "\<lfloor>real i / (of_int numEntries / real ?S)\<rfloor> = int (i * ?S div ?N)"
    using N S by (rule segment_index_eq)
  have lt: "i * ?S div ?N < ?S" using iN S by (rule segment_index_less)
  have nth: "nth_opt segments (int (i * ?S div ?N)) = Some (segments ! (i * ?S div ?N))"
    using lt by (simp add: nth_opt_def)
  have pr: "js_rem (real i) (of_int numEntries / real ?S) / (of_int numEntries / real ?S) =
            frac (real (i * ?S) / real ?N)"
    using N S by (rule segment_progress_eq)
  obtain lid s1 where u: "uuidv4 g s = (lid, s1)" by fastforce
  show ?thesis
    unfolding location_entry_def Let_def idx pr u prod.case nth option.case
    by (simp add: faker_int_draw bucket_point_def Let_def split: prod.split)
qed

lemma location_entry_ranges:
  assumes "rng_ok g" "location_entry g trainId numEntries segments i t s = Inr (loc, s')"
  shows "30 \<le> speed loc \<and> speed loc \<le> 120 \<and> 0 \<le> direction loc \<and> direction loc \<le> 360"
proof -
  obtain lid s1 where u: "uuidv4 g s = (lid, s1)" by fastforce
  from faker_int_range [OF assms(1), of 30 120 s1] obtain v s2 where
    v: "faker_int g 30 120 s1 = Inr (v, s2)" "30 \<le> v" "v \<le> 120" by auto
  from faker_int_range [OF assms(1), of 0 360 s2] obtain w s3 where
    w: "faker_int g 0 360 s2 = Inr (w, s3)" "0 \<le> w" "w \<le> 360" by auto
  from assms(2) have "speed loc = v \<and> direction loc = w"
    by (auto simp add: location_entry_def Let_def u v(1) w(1) split: option.splits)
  with v w show ?thesis by simp
qed
lemma location_entry_Nil: "location_entry g trainId numEntries [] i t s = Inl TypeError"
  by (simp add: location_entry_def Let_def split: prod.split)

lemma location_entry_fields:
  assumes "location_entry g trainId numEntries segments i t s = Inr (loc, s')" "int i < numEntries"
  shows "location_id loc = fst (uuidv4 g s) \<and> train_id loc = trainId \<and> timestamp loc = t \<and>
         loc_latitude loc = latitude (bucket_point segments (nat numEntries) i) \<and>
         loc_longitude loc = longitude (bucket_point segments (nat numEntries) i)"
proof -
  have "segments \<noteq> []" using assms(1) by (auto simp add: location_entry_Nil)
  from location_entry_ok [OF this assms(2), where g = g and trainId = trainId and t = t and s = s]
    assms(1) show ?thesis by auto
qed

lemma location_loop_returns:
  "segments \<noteq> [] \<Longrightarrow> \<exists>res s'. location_loop g tz trainId n segments i t s acc = Inr (res, s')"
proof (induction g tz trainId n segments i t s acc rule: location_loop.induct)
  case (1 g tz trainId n segments i t s acc)
  show ?case
  proof (cases "int i < n")
    case True
    from location_entry_ok [OF "1.prems" True, where g = g and trainId = trainId and t = t and s = s]
    obtain loc s1
      where e: "location_entry g trainId n segments i t s = Inr (loc, s1)" by blast
    from "1.IH" [OF True e refl "1.prems"] e True show ?thesis
      by (simp add: location_loop.simps [of g tz trainId n segments i t s acc])
  next
    case False
    then show ?thesis by (simp add: location_loop.simps [of g tz trainId n segments i t s acc])
  qed
qed

lemma location_loop_Inr:
  "location_loop g tz trainId n segments i t s acc = Inr (res, s') \<Longrightarrow>
   \<exists>rest. res = acc @ rest \<and> length rest = nat n - i \<and>
     (\<forall>j < length rest. \<exists>s0 s1. location_entry g trainId n segments (i + j) ((date_step tz ^^ j) t) s0
                                  = Inr (rest ! j, s1))"
proof (induction g tz trainId n segments i t s acc arbitrary: res s' rule: location_loop.induct)
  case (1 g tz trainId n segments i t s acc)
  show ?case
  proof (cases "int i < n")
    case True
    then obtain loc s1 where e: "location_entry g trainId n segments i t s = Inr (loc, s1)"
      and r: "location_loop g tz trainId n segments (Suc i) (date_step tz t) s1 (acc @ [loc]) = Inr (res, s')"
      using "1.prems" by (auto simp add: location_loop.simps [of g tz trainId n segments i t s acc]
          split: sum.splits)
    from "1.IH" [OF True e refl r] obtain rest where
      rest: "res = (acc @ [loc]) @ rest" "length rest = nat n - Suc i"
      "\<forall>j < length rest. \<exists>s0 s1. location_entry g trainId n segments (Suc i + j)
          ((date_step tz ^^ j) (date_step tz t)) s0 = Inr (rest ! j, s1)"
      by blast
    have "\<forall>j < length (loc # rest). \<exists>s0 s1. location_entry g trainId n segments (i + j)
            ((date_step tz ^^ j) t) s0 = Inr ((loc # rest) ! j, s1)"
    proof (intro allI impI)
      fix j assume "j < length (loc # rest)"
      show "\<exists>s0 s1. location_entry g trainId n segments (i + j) ((date_step tz ^^ j) t) s0
              = Inr ((loc # rest) ! j, s1)"
      proof (cases j)
        case 0 then show ?thesis using e by auto
      next
        case (Suc k)
        with \<open>j < length (loc # rest)\<close> rest(3) show ?thesis
          by (simp add: funpow_swap1)
      qed
    qed
    moreover have "length (loc # rest) = nat n - i" using rest(2) True by simp
    ultimately show ?thesis using rest(1) by auto
  next
    case False
    then show ?thesis using "1.prems" by (simp add: location_loop.simps [of g tz trainId n segments i t s acc])
  qed
qed

lemma bucket_point_in_bounds:
  assumes "\<forall>seg \<in> set segs. in_bounds b (seg_start seg) \<and> in_bounds b (seg_end seg)"
    and "segs \<noteq> []" and "i < n"
  shows "in_bounds b (bucket_point segs n i)"
proof -
  have "i * length segs div n < length segs"
    using assms(2,3) by (intro segment_index_less) simp_all
  then have "segs ! (i * length segs div n) \<in> set segs" by simp
  with assms(1) have se: "in_bounds b (seg_start (segs ! (i * length segs div n)))"
    "in_bounds b (seg_end (segs ! (i * length segs div n)))" by auto
  have "0 \<le> frac (real (i * length segs) / real n)" "frac (real (i * length segs) / real n) \<le> 1"
    by (simp_all add: frac_ge_0 frac_lt_1 less_imp_le)
  from in_bounds_lerp [OF se this] show ?thesis
    by (simp add: bucket_point_def Let_def)
qed

section \<open>The whole series\<close>

lemma generateLocationData_nth:
  assumes "generateLocationData g tz trainId startDate numEntries segments s = Inr (res, s')"
  shows "length res = nat numEntries \<and>
         (\<forall>j < length res. \<exists>s0 s1. location_entry g trainId numEntries segments j
            ((date_step tz ^^ j) startDate) s0 = Inr (res ! j, s1))"
  using location_loop_Inr [OF assms [unfolded generateLocationData_def]] by auto

lemma generateLocationData_record:
  assumes "generateLocationData g tz trainId startDate numEntries segments s = Inr (res, s')"
    and "j < length res"
  shows "train_id (res ! j) = trainId \<and> timestamp (res ! j) = (date_step tz ^^ j) startDate \<and>
         loc_latitude (res ! j) = latitude (bucket_point segments (nat numEntries) j) \<and>
         loc_longitude (res ! j) = longitude (bucket_point segments (nat numEntries) j)"
proof -
  from generateLocationData_nth [OF assms(1)] assms(2) obtain s0 s1 where
    e: "location_entry g trainId numEntries segments j ((date_step tz ^^ j) startDate) s0 = Inr (res ! j, s1)"
    and l: "length res = nat numEntries" by blast
  have "int j < numEntries" using assms(2) l by simp
  from location_entry_fields [OF e this] show ?thesis by simp
qed

lemma date_step_fixed_zone: "date_step (fixed_zone c) t = t + 60000"
  by (simp add: date_step_def DATA_INTERVAL_MINUTES_def setMinutes_fixed_zone)

lemma date_step_fixed_zone_pow: "(date_step (fixed_zone c) ^^ j) t = t + int j * 60000"
  by (induction j) (simp_all add: date_step_fixed_zone algebra_simps)

lemma location_loop_nonpositive:
  "numEntries \<le> 0 \<Longrightarrow> location_loop g tz trainId numEntries segments 0 t s acc = Inr (acc, s)"
  by (simp add: location_loop.simps [of g tz trainId numEntries segments 0 t s acc])

text \<open>
  C1. \<open>generateLocationData\<close> returns, with exactly \<open>numEntries\<close> records, exactly when
  the route is non-empty or there is nothing to generate; otherwise it throws.
\<close>

theorem generateLocationData_returns:
  "(\<exists>res s'. generateLocationData g tz trainId startDate numEntries segments s = Inr (res, s') \<and>
             length res = nat numEntries) \<longleftrightarrow> segments \<noteq> [] \<or> numEntries \<le> 0"
proof (cases "numEntries \<le> 0")
  case True
  then show ?thesis by (simp add: generateLocationData_def location_loop_nonpositive)
next
  case False
  show ?thesis
  proof
    assume "\<exists>res s'. generateLocationData g tz trainId startDate numEntries segments s = Inr (res, s') \<and>
             length res = nat numEntries"
    then obtain res s' where r: "generateLocationData g tz trainId startDate numEntries segments s = Inr (res, s')"
      and "length res = nat numEntries" by blast
    with False have "0 < length res" by simp
    with generateLocationData_nth [OF r] obtain s0 s1 where
      "location_entry g trainId numEntries segments 0 startDate s0 = Inr (res ! 0, s1)" by fastforce
    then have "segments \<noteq> []" by (auto simp add: location_entry_Nil)
    then show "segments \<noteq> [] \<or> numEntries \<le> 0" ..
  next
    assume "segments \<noteq> [] \<or> numEntries \<le> 0"
    with False have "segments \<noteq> []" by simp
    from location_loop_returns [OF this, where g = g and tz = tz and trainId = trainId
        and n = numEntries and i = 0 and t = startDate and s = s and acc = "[]"]
    obtain res s' where
      r: "generateLocationData g tz trainId startDate numEntries segments s = Inr (res, s')"
      unfolding generateLocationData_def by blast
    with generateLocationData_nth [OF r] show "\<exists>res s'. generateLocationData g tz trainId startDate
        numEntries segments s = Inr (res, s') \<and> length res = nat numEntries" by blast
  qed
qed

text \<open>
  C2. In a zone without daylight saving the timestamps are the start date and then
  exactly one minute (\<open>DATA_INTERVAL_MINUTES\<close>) apart: record \<open>j\<close> is stamped
  \<open>startDate + j * 60000\<close> ms.
\<close>

theorem generateLocationData_timestamps:
  assumes "generateLocationData g (fixed_zone c) trainId startDate numEntries segments s = Inr (res, s')"
  shows "map timestamp res = map (\<lambda>j. startDate + int j * 60000) [0..<nat numEntries]"
proof (rule nth_equalityI)
  show "length (map timestamp res) = length (map (\<lambda>j. startDate + int j * 60000) [0..<nat numEntries])"
    using generateLocationData_nth [OF assms] by simp
next
  fix j assume "j < length (map timestamp res)"
  then show "map timestamp res ! j = map (\<lambda>j. startDate + int j * 60000) [0..<nat numEntries] ! j"
    using generateLocationData_record [OF assms] generateLocationData_nth [OF assms]
    by (simp add: date_step_fixed_zone_pow)
qed

text \<open>
  C3. The position of record \<open>j\<close> is the reference point \<open>bucket_point\<close>: the
  interpolation in segment \<open>j * S div N\<close> at the fractional part of \<open>j * S / N\<close>
  (\<open>S\<close> segments, \<open>N = numEntries\<close>), whatever the time zone and the draws.
\<close>

theorem generateLocationData_positions:
  assumes "generateLocationData g tz trainId startDate numEntries segments s = Inr (res, s')"
  shows "map (\<lambda>l. \<lparr>latitude = loc_latitude l, longitude = loc_longitude l\<rparr>) res =
         map (bucket_point segments (nat numEntries)) [0..<nat numEntries]"
proof (rule nth_equalityI)
  show "length (map (\<lambda>l. \<lparr>latitude = loc_latitude l, longitude = loc_longitude l\<rparr>) res) =
        length (map (bucket_point segments (nat numEntries)) [0..<nat numEntries])"
    using generateLocationData_nth [OF assms] by simp
next
  fix j assume "j < length (map (\<lambda>l. \<lparr>latitude = loc_latitude l, longitude = loc_longitude l\<rparr>) res)"
  then show "map (\<lambda>l. \<lparr>latitude = loc_latitude l, longitude = loc_longitude l\<rparr>) res ! j =
             map (bucket_point segments (nat numEntries)) [0..<nat numEntries] ! j"
    using generateLocationData_record [OF assms] generateLocationData_nth [OF assms] by simp
qed


text \<open>
  C9. With a generator whose draws lie in \<open>[0, 1)\<close>, every record has a speed in
  \<open>[30, 120]\<close> and a direction in \<open>[0, 360]\<close>.
\<close>

theorem generateLocationData_ranges:
  assumes "rng_ok g"
    and "generateLocationData g tz trainId startDate numEntries segments s = Inr (res, s')"
    and "loc \<in> set res"
  shows "30 \<le> speed loc \<and> speed loc \<le> 120 \<and> 0 \<le> direction loc \<and> direction loc \<le> 360"
proof -
  from assms(3) obtain j where j: "j < length res" "loc = res ! j" by (auto simp add: in_set_conv_nth)
  with generateLocationData_nth [OF assms(2)] obtain s0 s1 where
    "location_entry g trainId numEntries segments j ((date_step tz ^^ j) startDate) s0 = Inr (loc, s1)"
    by blast
  from location_entry_ranges [OF assms(1) this] show ?thesis .
qed

text \<open>
  C10. The first record lies at the start of the first segment (progress 0) and carries
  the start date.
\<close>

theorem generateLocationData_first:
  assumes "generateLocationData g tz trainId startDate numEntries segments s = Inr (res, s')"
    and "res \<noteq> []"
  shows "loc_latitude (hd res) = latitude (seg_start (hd segments)) \<and>
         loc_longitude (hd res) = longitude (seg_start (hd segments)) \<and>
         timestamp (hd res) = startDate"
proof -
  have "0 < length res" using assms(2) by simp
  with generateLocationData_nth [OF assms(1)] obtain s0 s1 where
    "location_entry g trainId numEntries segments 0 startDate s0 = Inr (res ! 0, s1)" by fastforce
  then have "segments \<noteq> []" by (auto simp add: location_entry_Nil)
  with generateLocationData_record [OF assms(1) \<open>0 < length res\<close>] assms(2)
  show ?thesis by (simp add: hd_conv_nth bucket_point_def Let_def)
qed


text \<open>
  C12. On an empty route with samples to generate, the first iteration reads
  \<open>segments[0].start\<close> of \<open>undefined\<close> and throws a \<open>TypeError\<close>.
\<close>

theorem generateLocationData_empty_route:
  "0 < numEntries \<Longrightarrow> generateLocationData g tz trainId startDate numEntries [] s = Inl TypeError"
  by (simp add: generateLocationData_def location_loop.simps [of g tz trainId numEntries "[]" 0]
      location_entry_Nil)

text \<open>
  C13. With \<open>numEntries \<le> 0\<close> the loop does not run: the result is the empty series
  and the random state is untouched (the specification asks for InvalidArgument).
\<close>

theorem generateLocationData_nonpositive:
  "numEntries \<le> 0 \<Longrightarrow>
   generateLocationData g tz trainId startDate numEntries segments s = Inr ([], s)"
  by (simp add: generateLocationData_def location_loop_nonpositive)

text \<open>
  C30. In any time zone, the date step of the synthesizer advances the UTC time by
  exactly one minute if and only if the offset the zone chooses for the new local time
  is the offset of the old date: away from daylight-saving transitions the records are
  one minute apart, and at a transition the step is off by the change of offset.
\<close>

theorem date_step_one_minute_iff:
  "date_step tz t = t + 60000 \<longleftrightarrow> local_offset tz (LocalTime tz t + 60000) = utc_offset tz t"
  by (auto simp add: date_step_def DATA_INTERVAL_MINUTES_def setMinutes_getMinutes_plus UTC_def
      LocalTime_def msPerMinute_def)

section \<open>Witnesses\<close>

lemma demo_run: "\<exists>res s'. generateLocationData demo_rng tz 1 0 2 demo_route 0 = Inr (res, s')"
  using location_loop_returns [of demo_route demo_rng tz 1 2 0 0 0 "[]"]
  by (simp add: generateLocationData_def)

lemma generateLocationData_returns_witness:
  "\<exists>res s'. generateLocationData demo_rng (fixed_zone 0) 1 0 2 demo_route 0 = Inr (res, s') \<and> length res = 2"
  using generateLocationData_returns [of demo_rng "fixed_zone 0" 1 0 2 demo_route 0] by simp

lemma generateLocationData_timestamps_witness:
  "\<exists>res s'. generateLocationData demo_rng (fixed_zone 0) 1 0 2 demo_route 0 = Inr (res, s') \<and> map timestamp res = [0, 60000]"
proof -
  obtain res s' where r: "generateLocationData demo_rng (fixed_zone 0) 1 0 2 demo_route 0 = Inr (res, s')" using demo_run by blast
  from generateLocationData_timestamps [OF r] r show ?thesis by (auto simp add: upt_rec)
qed

lemma generateLocationData_positions_witness:
  "\<exists>res s'. generateLocationData demo_rng (fixed_zone 0) 1 0 2 demo_route 0 = Inr (res, s') \<and>
     map loc_latitude res = [6, 13 / 2]"
proof -
  obtain res s' where r: "generateLocationData demo_rng (fixed_zone 0) 1 0 2 demo_route 0 = Inr (res, s')" using demo_run by blast
  have "map latitude (map (\<lambda>l. \<lparr>latitude = loc_latitude l, longitude = loc_longitude l\<rparr>) res) =
        map latitude (map (bucket_point demo_route 2) [0..<2])"
    using generateLocationData_positions [OF r] by simp
  then have "map loc_latitude res = [6, 13 / 2]"
    by (simp add: upt_rec bucket_point_def Let_def comp_def frac_def)
  with r show ?thesis by (intro exI [of _ res] exI [of _ s'] conjI)
qed


lemma generateLocationData_ranges_witness:
  "rng_ok demo_rng \<and> (\<exists>res s'. generateLocationData demo_rng (fixed_zone 0) 1 0 2 demo_route 0 = Inr (res, s') \<and> res \<noteq> [] \<and>
     30 \<le> speed (hd res) \<and> speed (hd res) \<le> 120)"
proof -
  obtain res s' where r: "generateLocationData demo_rng (fixed_zone 0) 1 0 2 demo_route 0 = Inr (res, s')" using demo_run by blast
  have l: "length res = 2" using generateLocationData_nth [OF r] by simp
  then have "hd res \<in> set res" by (cases res) auto
  from generateLocationData_ranges [OF demo_rng_ok r this] l r demo_rng_ok show ?thesis
    by (intro conjI exI [of _ res] exI [of _ s']) auto
qed

lemma generateLocationData_first_witness:
  "\<exists>res s'. generateLocationData demo_rng (fixed_zone 0) 1 0 2 demo_route 0 = Inr (res, s') \<and> res \<noteq> [] \<and>
     loc_latitude (hd res) = 6 \<and> timestamp (hd res) = 0"
proof -
  obtain res s' where r: "generateLocationData demo_rng (fixed_zone 0) 1 0 2 demo_route 0 = Inr (res, s')" using demo_run by blast
  have "res \<noteq> []" using generateLocationData_nth [OF r] by auto
  from generateLocationData_first [OF r this] r \<open>res \<noteq> []\<close> show ?thesis
    by (intro exI [of _ res] exI [of _ s']) simp
qed

lemma generateLocationData_empty_route_witness:
  "0 < (2::int) \<and> generateLocationData demo_rng (fixed_zone 0) 1 0 2 [] 0 = Inl TypeError"
  using generateLocationData_empty_route [of 2 demo_rng "fixed_zone 0" 1 0 0] by simp

lemma generateLocationData_nonpositive_witness:
  "(0::int) \<le> 0 \<and> generateLocationData demo_rng (fixed_zone 0) 1 0 0 demo_route 0 = Inr ([], 0)"
  using generateLocationData_nonpositive [of 0 demo_rng "fixed_zone 0" 1 0 demo_route 0] by simp

end
