(* ===== verification/Client.thy ===== *)
theory Client
  imports Prelude
begin

text \<open>
  The MongoDB client as the program uses it. \<open>connectToMongoDB\<close> of
  \<open>src/mongoConnection.js\<close> builds a \<open>MongoClient\<close> with three options (lines 6--10)
  and calls \<open>connect()\<close>; \<open>insertDataInBatches\<close> calls \<open>collection.insertMany\<close>;
  \<open>main\<close> calls \<open>client.close()\<close> in its \<open>finally\<close>.

  The driver's contract is modelled from its documentation as a protocol over the
  client's life cycle: \<open>connect()\<close> takes a new client to connected, or fails;
  \<open>insertMany(docs)\<close> is valid only on a connected client and with a non-empty array
  (the driver rejects an empty batch with \<open>MongoInvalidArgumentError\<close> and an operation
  on a closed client with \<open>MongoTopologyClosedError\<close>); \<open>close()\<close> ends the life of a
  connected client. \<open>client_step\<close> is the step relation, \<open>client_trace\<close> its
  closure over a sequence of calls; the program records the calls it makes in the
  database state (theory \<open>Batches\<close>), and the theory \<open>Generator\<close> shows that every
  run of \<open>main\<close> is a trace of the protocol.
\<close>

record client_options =
  tlsAllowInvalidCertificates :: bool
  tlsAllowInvalidHostnames :: bool
  serverSelectionTimeoutMS :: nat

definition mongo_client_options :: client_options where
  "mongo_client_options =
     \<lparr>tlsAllowInvalidCertificates = True, tlsAllowInvalidHostnames = True,
      serverSelectionTimeoutMS = 5000\<rparr>"

datatype client_state = Created | Connected | Closed | ConnectFailed

datatype driver_call = Connect | InsertMany nat | Close

inductive client_step :: "client_state \<Rightarrow> driver_call \<Rightarrow> client_state \<Rightarrow> bool" where
  connect_ok: "client_step Created Connect Connected"
| connect_failed: "client_step Created Connect ConnectFailed"
| insert_many: "0 < n \<Longrightarrow> client_step Connected (InsertMany n) Connected"
| close: "client_step Connected Close Closed"

inductive client_trace :: "client_state \<Rightarrow> driver_call list \<Rightarrow> client_state \<Rightarrow> bool" where
  trace_nil: "client_trace s [] s"
| trace_cons: "client_step s c s' \<Longrightarrow> client_trace s' cs s'' \<Longrightarrow> client_trace s (c # cs) s''"

code_pred client_step .

code_pred client_trace .

text \<open>A sequence of \<open>insertMany\<close> calls the driver accepts, each with a non-empty array.\<close>

definition valid_inserts :: "driver_call list \<Rightarrow> bool" where
  "valid_inserts cs = list_all (\<lambda>c. \<exists>n. 0 < n \<and> c = InsertMany n) cs"

text \<open>A client whose life has ended accepts no call.\<close>

definition client_final :: "client_state \<Rightarrow> bool" where
  "client_final s = (s = Closed \<or> s = ConnectFailed)"

section \<open>Inversion and composition of traces\<close>

inductive_cases client_step_ClosedE [elim!]: "client_step Closed c s"
inductive_cases client_step_FailedE [elim!]: "client_step ConnectFailed c s"
inductive_cases client_step_ConnectedE [elim]: "client_step Connected c s"
inductive_cases client_step_CreatedE [elim]: "client_step Created c s"

inductive_simps client_trace_Nil [simp]: "client_trace s [] s'"
inductive_simps client_trace_Cons [simp]: "client_trace s (c # cs) s'"

declare client_step.intros [intro]

lemma client_trace_append:
  "client_trace s (cs @ ds) s'' \<longleftrightarrow> (\<exists>s'. client_trace s cs s' \<and> client_trace s' ds s'')"
  by (induction cs arbitrary: s) auto

lemma valid_inserts_append [simp]: "valid_inserts (cs @ ds) = (valid_inserts cs \<and> valid_inserts ds)"
  by (simp add: valid_inserts_def)

lemma valid_inserts_Nil [simp]: "valid_inserts []"
  by (simp add: valid_inserts_def)

lemma client_trace_inserts: "valid_inserts cs \<Longrightarrow> client_trace Connected cs Connected"
  by (induction cs) (auto simp add: valid_inserts_def)

lemma client_final_no_step: "client_final s \<Longrightarrow> \<not> client_step s c s'"
  by (auto simp add: client_final_def)

lemma client_trace_from_final:
  "client_final s \<Longrightarrow> client_trace s cs s' \<longleftrightarrow> cs = [] \<and> s' = s"
  by (cases cs) (auto dest: client_final_no_step)

end
