(* ===== verification/Batches.thy ===== *)
theory Batches
  imports Client
begin

text \<open>
  The bulk writer, \<open>insertDataInBatches(collection, data)\<close> of
  \<open>src/dataGenerator.js\<close> (lines 72--82). The loop steps \<open>i\<close> by \<open>BATCH_SIZE\<close> from
  0 while \<open>i < data.length\<close>, sends \<open>data.slice(i, i + BATCH_SIZE)\<close> to
  \<open>collection.insertMany\<close>, and logs \<open>Inserted batch k\<close> or, when the call throws,
  \<open>Error inserting batch k\<close> with \<open>k = i / BATCH_SIZE + 1\<close>; a failed batch is not
  retried and the loop goes on.

  The database and the console are one state (\<open>db_state\<close>): the documents of the
  collection, the console lines, and the outcomes the server will give to the next
  \<open>insertMany\<close> calls (the environment; an exhausted list means every later call
  succeeds). \<open>insertMany\<close> is the MongoDB driver's ordered insert, modelled from its
  documentation: it either writes the whole batch, or fails after writing the first
  \<open>w\<close> documents of it. Documents are of any type \<open>'d\<close>. Each batch also records the
  driver call \<open>InsertMany (length batch)\<close> in \<open>calls\<close>, the log of the client calls
  that theory \<open>Client\<close> constrains.

  \<open>chunks\<close> is the sequence of slices the loop takes; the refinement lemma shows that
  the loop is a fold of the batch step over the numbered chunks.
\<close>

datatype insert_outcome = Acknowledged | WriteError nat

datatype log_msg =
    InsertedBatch nat
  | ErrorInsertingBatch nat
  | InsertedTrain int
  | ErrorDuringGeneration
  | GenerationComplete
  | ConnectedToMongoDB
  | ErrorConnectingToMongoDB

record 'd db_state =
  docs :: "'d list"
  console :: "log_msg list"
  faults :: "insert_outcome list"
  calls :: "driver_call list"

definition BATCH_SIZE :: nat where
  "BATCH_SIZE = 1000"

definition next_outcome :: "insert_outcome list \<Rightarrow> insert_outcome \<times> insert_outcome list" where
  "next_outcome fs = (case fs of [] \<Rightarrow> (Acknowledged, []) | f # fs' \<Rightarrow> (f, fs'))"

definition insertMany :: "insert_outcome \<Rightarrow> 'd list \<Rightarrow> 'd list \<Rightarrow> 'd list" where
  "insertMany outcome batch coll =
     (case outcome of Acknowledged \<Rightarrow> coll @ batch | WriteError w \<Rightarrow> coll @ take w batch)"

definition insert_batch :: "nat \<Rightarrow> 'd list \<Rightarrow> 'd db_state \<Rightarrow> 'd db_state" where
  "insert_batch k batch st =
     (let (outcome, rest) = next_outcome (faults st)
      in st\<lparr>docs := insertMany outcome batch (docs st), faults := rest,
            calls := calls st @ [InsertMany (length batch)],
            console := console st @
              [case outcome of Acknowledged \<Rightarrow> InsertedBatch k | WriteError _ \<Rightarrow> ErrorInsertingBatch k]\<rparr>)"

function insert_batches_loop :: "nat \<Rightarrow> 'd list \<Rightarrow> 'd db_state \<Rightarrow> 'd db_state" where
  "insert_batches_loop i data st =
     (if i < length data
      then insert_batches_loop (i + BATCH_SIZE) data
             (insert_batch (i div BATCH_SIZE + 1) (take BATCH_SIZE (drop i data)) st)
      else st)"
  by pat_completeness auto
termination
  by (relation "measure (\<lambda>(i, data, _). length data - i)") (auto simp add: BATCH_SIZE_def)

declare insert_batches_loop.simps [simp del]

definition insertDataInBatches :: "'d list \<Rightarrow> 'd db_state \<Rightarrow> 'd db_state" where
  "insertDataInBatches data st = insert_batches_loop 0 data st"

fun chunks :: "nat \<Rightarrow> 'a list \<Rightarrow> 'a list list" where
  "chunks n [] = []"
| "chunks n xs = (if n = 0 then [xs] else take n xs # chunks n (drop n xs))"

definition numbered :: "nat \<Rightarrow> 'a list \<Rightarrow> (nat \<times> 'a) list" where
  "numbered k xs = zip [k..<k + length xs] xs"

definition batch_number :: "log_msg \<Rightarrow> nat" where
  "batch_number m = (case m of InsertedBatch k \<Rightarrow> k | ErrorInsertingBatch k \<Rightarrow> k | _ \<Rightarrow> 0)"

section \<open>Chunks, the fold and its facts\<close>

lemma BATCH_SIZE_pos: "0 < BATCH_SIZE" by (simp add: BATCH_SIZE_def)

lemma chunks_Cons: "0 < n \<Longrightarrow> xs \<noteq> [] \<Longrightarrow> chunks n xs = take n xs # chunks n (drop n xs)"
  by (cases xs) auto

lemma concat_chunks: "0 < n \<Longrightarrow> concat (chunks n xs) = xs"
  by (induction n xs rule: chunks.induct) auto

lemma chunks_sizes: "0 < n \<Longrightarrow> b \<in> set (chunks n xs) \<Longrightarrow> b \<noteq> [] \<and> length b \<le> n"
  by (induction n xs rule: chunks.induct) auto

lemma length_chunks: "0 < n \<Longrightarrow> length (chunks n xs) = (length xs + n - 1) div n"
proof (induction n xs rule: chunks.induct)
  case (1 n) then show ?case by simp
next
  case (2 n v vs)
  let ?l = "length (v # vs)"
  have ih: "length (chunks n (drop n (v # vs))) = (?l - n + n - 1) div n"
    using 2 by simp
  have e: "(?l - n + n - 1) div n = (?l - 1) div n"
    by (cases "n \<le> ?l") (simp_all add: div_eq_0_iff "2.prems")
  have "(?l + n - 1) div n = Suc ((?l + n - 1 - n) div n)"
    using "2.prems" by (intro le_div_geq) simp_all
  with ih e "2.prems" show ?case by simp
qed

lemma numbered_Cons: "numbered k (x # xs) = (k, x) # numbered (Suc k) xs"
  by (simp add: numbered_def upt_rec)

lemma numbered_Nil [simp]: "numbered k [] = []"
  by (simp add: numbered_def)

lemma insert_batches_loop_fold:
  "insert_batches_loop i data st =
     fold (\<lambda>(k, b). insert_batch k b) (numbered (i div BATCH_SIZE + 1) (chunks BATCH_SIZE (drop i data))) st"
proof (induction i data st rule: insert_batches_loop.induct)
  case (1 i data st)
  show ?case
  proof (cases "i < length data")
    case True
    have c: "chunks BATCH_SIZE (drop i data) =
             take BATCH_SIZE (drop i data) # chunks BATCH_SIZE (drop (i + BATCH_SIZE) data)"
      using True BATCH_SIZE_pos by (simp add: chunks_Cons add.commute)
    have d: "(i + BATCH_SIZE) div BATCH_SIZE = Suc (i div BATCH_SIZE)"
      using BATCH_SIZE_pos by simp
    from "1.IH" [OF True] True show ?thesis
      by (simp add: insert_batches_loop.simps [of i data st] c d numbered_Cons)
  next
    case False
    then show ?thesis by (simp add: insert_batches_loop.simps [of i data st])
  qed
qed

lemma snd_next_outcome: "snd (next_outcome fs) = drop 1 fs"
  by (simp add: next_outcome_def split: list.split)

lemma insert_batch_Nil_faults:
  "faults st = [] \<Longrightarrow> insert_batch k b st =
     st\<lparr>docs := docs st @ b, console := console st @ [InsertedBatch k],
        calls := calls st @ [InsertMany (length b)]\<rparr>"
  by (simp add: insert_batch_def next_outcome_def insertMany_def)

lemma fold_insert_batch_ack:
  "faults st = [] \<Longrightarrow> fold (\<lambda>(k, b). insert_batch k b) (numbered k bs) st =
     st\<lparr>docs := docs st @ concat bs, console := console st @ map InsertedBatch [k..<k + length bs],
        calls := calls st @ map (\<lambda>b. InsertMany (length b)) bs\<rparr>"
proof (induction bs arbitrary: k st)
  case Nil then show ?case by simp
next
  case (Cons b bs)
  have "faults (insert_batch k b st) = []" using Cons.prems by (simp add: insert_batch_Nil_faults)
  from Cons.IH [OF this, of "Suc k"] Cons.prems show ?case
    by (simp add: numbered_Cons insert_batch_Nil_faults upt_conv_Cons del: upt_Suc)
qed

lemma insert_batch_grows:
  "\<exists>d c. docs (insert_batch k b st) = docs st @ d \<and> console (insert_batch k b st) = console st @ c"
  by (auto simp add: insert_batch_def insertMany_def split: prod.split insert_outcome.split)

lemma fold_insert_batch_grows:
  "\<exists>d c. docs (fold (\<lambda>(k, b). insert_batch k b) L st) = docs st @ d \<and>
         console (fold (\<lambda>(k, b). insert_batch k b) L st) = console st @ c"
proof (induction L arbitrary: st)
  case Nil then show ?case by simp
next
  case (Cons kb L)
  obtain k b where kb: "kb = (k, b)" by fastforce
  from insert_batch_grows [of k b st] obtain d c where
    "docs (insert_batch k b st) = docs st @ d" "console (insert_batch k b st) = console st @ c" by blast
  with Cons.IH [of "insert_batch k b st"] kb show ?case by auto
qed

lemma insert_batch_written:
  "x \<in> set b \<Longrightarrow> x \<in> set (docs (insert_batch k b st)) \<or>
                   ErrorInsertingBatch k \<in> set (console (insert_batch k b st))"
  by (auto simp add: insert_batch_def insertMany_def split: prod.split insert_outcome.split)

lemma fold_insert_batch_written:
  "(k, b) \<in> set L \<Longrightarrow> x \<in> set b \<Longrightarrow>
   x \<in> set (docs (fold (\<lambda>(k, b). insert_batch k b) L st)) \<or>
   ErrorInsertingBatch k \<in> set (console (fold (\<lambda>(k, b). insert_batch k b) L st))"
proof (induction L arbitrary: st)
  case Nil then show ?case by simp
next
  case (Cons kb L)
  obtain k' b' where kb: "kb = (k', b')" by fastforce
  show ?case
  proof (cases "(k, b) \<in> set L")
    case True
    from Cons.IH [OF True Cons.prems(2)] kb show ?thesis by simp
  next
    case False
    with Cons.prems kb have "k' = k" "b' = b" by auto
    from insert_batch_written [OF Cons.prems(2), of k st]
      fold_insert_batch_grows [of L "insert_batch k b st"] kb \<open>k' = k\<close> \<open>b' = b\<close>
    show ?thesis by force
  qed
qed

lemma chunks_nth_mem:
  "0 < n \<Longrightarrow> j < length xs \<Longrightarrow> j div n < length (chunks n xs) \<and> xs ! j \<in> set (chunks n xs ! (j div n))"
proof (induction n xs arbitrary: j rule: chunks.induct)
  case (1 n) then show ?case by simp
next
  case (2 n v vs)
  show ?case
  proof (cases "j < n")
    case True
    with "2.prems" show ?thesis by (auto simp add: in_set_conv_nth)
  next
    case False
    then have j: "j div n = Suc ((j - n) div n)" using "2.prems" by (simp add: le_div_geq)
    have "j - n < length (drop n (v # vs))" using "2.prems" False by simp
    from "2.IH" [OF _ "2.prems"(1) this] "2.prems"(1) have
      "(j - n) div n < length (chunks n (drop n (v # vs))) \<and>
       drop n (v # vs) ! (j - n) \<in> set (chunks n (drop n (v # vs)) ! ((j - n) div n))"
      by simp
    with False "2.prems" j show ?thesis by simp
  qed
qed

lemma numbered_mem: "i < length bs \<Longrightarrow> (k + i, bs ! i) \<in> set (numbered k bs)"
  unfolding numbered_def set_zip by (rule CollectI, rule exI [of _ i]) simp

lemma fold_insert_batch_log:
  "map batch_number (console (fold (\<lambda>(k, b). insert_batch k b) (numbered k bs) st)) =
     map batch_number (console st) @ [k..<k + length bs] \<and>
   faults (fold (\<lambda>(k, b). insert_batch k b) (numbered k bs) st) = drop (length bs) (faults st)"
proof (induction bs arbitrary: k st)
  case Nil then show ?case by simp
next
  case (Cons b bs)
  have "map batch_number (console (insert_batch k b st)) = map batch_number (console st) @ [k] \<and>
        faults (insert_batch k b st) = drop 1 (faults st)"
    by (simp add: insert_batch_def batch_number_def next_outcome_def split: list.split insert_outcome.split)
  with Cons.IH [of "Suc k" "insert_batch k b st"] show ?case
    by (simp add: numbered_Cons upt_conv_Cons del: upt_Suc)
qed

lemma fold_insert_batch_calls:
  "calls (fold (\<lambda>(k, b). insert_batch k b) (numbered k bs) st) =
     calls st @ map (\<lambda>b. InsertMany (length b)) bs"
  by (induction bs arbitrary: k st) (simp_all add: numbered_Cons insert_batch_def split: prod.split)

lemma insertDataInBatches_calls_eq:
  "calls (insertDataInBatches data st) = calls st @ map (\<lambda>b. InsertMany (length b)) (chunks BATCH_SIZE data)"
  using insert_batches_loop_fold [of 0 data st] by (simp add: insertDataInBatches_def fold_insert_batch_calls)

section \<open>Properties of the bulk writer\<close>



text \<open>
  C22. When no write fails, every record reaches the collection, in order, and the
  console shows \<open>Inserted batch 1\<close>, \<open>Inserted batch 2\<close>, \<dots> once each; one
  \<open>insertMany\<close> call is made per slice.
\<close>

theorem insertDataInBatches_all_acknowledged:
  assumes "faults st = []"
  shows "insertDataInBatches data st =
           st\<lparr>docs := docs st @ data,
              console := console st @ map InsertedBatch [1..<length (chunks BATCH_SIZE data) + 1],
              calls := calls st @ map (\<lambda>b. InsertMany (length b)) (chunks BATCH_SIZE data)\<rparr>"
proof -
  have "insertDataInBatches data st =
          fold (\<lambda>(k, b). insert_batch k b) (numbered 1 (chunks BATCH_SIZE data)) st"
    using insert_batches_loop_fold [of 0 data st] by (simp add: insertDataInBatches_def)
  also have "\<dots> = st\<lparr>docs := docs st @ concat (chunks BATCH_SIZE data),
      console := console st @ map InsertedBatch [1..<1 + length (chunks BATCH_SIZE data)],
      calls := calls st @ map (\<lambda>b. InsertMany (length b)) (chunks BATCH_SIZE data)\<rparr>"
    by (rule fold_insert_batch_ack [OF assms])
  also have "concat (chunks BATCH_SIZE data) = data"
    by (rule concat_chunks [OF BATCH_SIZE_pos])
  finally show ?thesis by (simp only: add.commute)
qed

text \<open>
  C23. No record is dropped silently: record \<open>j\<close> is in the collection afterwards, or
  the console reports an error for its batch \<open>j / BATCH_SIZE + 1\<close>.
\<close>

theorem insertDataInBatches_no_silent_drop:
  assumes "j < length data"
  shows "data ! j \<in> set (docs (insertDataInBatches data st)) \<or>
         ErrorInsertingBatch (j div BATCH_SIZE + 1) \<in> set (console (insertDataInBatches data st))"
proof -
  from chunks_nth_mem [OF BATCH_SIZE_pos assms] have
    "j div BATCH_SIZE < length (chunks BATCH_SIZE data)"
    "data ! j \<in> set (chunks BATCH_SIZE data ! (j div BATCH_SIZE))" by simp_all
  with numbered_mem [of "j div BATCH_SIZE" "chunks BATCH_SIZE data" 1]
    fold_insert_batch_written [of "j div BATCH_SIZE + 1" "chunks BATCH_SIZE data ! (j div BATCH_SIZE)"
      "numbered 1 (chunks BATCH_SIZE data)" "data ! j" st]
  show ?thesis
    using insert_batches_loop_fold [of 0 data st] by (simp add: insertDataInBatches_def add.commute)
qed

text \<open>
  C24. Every batch is sent exactly once and logged exactly once: the console gains one
  line per batch, numbered \<open>1, 2, \<dots>\<close> in order, and exactly one server outcome is
  consumed per batch (a failed batch is not retried).
\<close>

theorem insertDataInBatches_once_per_batch:
  "map batch_number (console (insertDataInBatches data st)) =
     map batch_number (console st) @ [1..<length (chunks BATCH_SIZE data) + 1] \<and>
   faults (insertDataInBatches data st) = drop (length (chunks BATCH_SIZE data)) (faults st)"
  using insert_batches_loop_fold [of 0 data st] fold_insert_batch_log [of 1 "chunks BATCH_SIZE data" st]
  by (simp add: insertDataInBatches_def del: upt_Suc)

text \<open>
  C31. The bulk writer calls \<open>collection.insertMany\<close> once per slice,
  \<open>(length data + BATCH_SIZE - 1) div BATCH_SIZE\<close> times, never with an empty array
  (which the driver rejects) nor with more than \<open>BATCH_SIZE\<close> documents, and the sizes
  of the calls add up to the length of the data, whatever the server answers.
\<close>

theorem insertDataInBatches_call_sizes:
  "\<exists>ns. calls (insertDataInBatches data st) = calls st @ map InsertMany ns \<and>
        length ns = (length data + BATCH_SIZE - 1) div BATCH_SIZE \<and> sum_list ns = length data \<and>
        (\<forall>n \<in> set ns. 0 < n \<and> n \<le> BATCH_SIZE)"
proof (intro exI conjI)
  let ?ns = "map length (chunks BATCH_SIZE data)"
  show "calls (insertDataInBatches data st) = calls st @ map InsertMany ?ns"
    by (simp add: insertDataInBatches_calls_eq comp_def)
  show "length ?ns = (length data + BATCH_SIZE - 1) div BATCH_SIZE"
    by (simp add: length_chunks [OF BATCH_SIZE_pos])
  show "sum_list ?ns = length data"
    using arg_cong [OF concat_chunks [OF BATCH_SIZE_pos, of data], of length]
    by (simp add: length_concat)
  show "\<forall>n \<in> set ?ns. 0 < n \<and> n \<le> BATCH_SIZE"
    using chunks_sizes [OF BATCH_SIZE_pos] by fastforce
qed

section \<open>Witnesses\<close>


lemma insertDataInBatches_all_acknowledged_witness:
  "faults (\<lparr>docs = [], console = [], faults = [], calls = []\<rparr> :: nat db_state) = [] \<and>
   insertDataInBatches [1, 2, 3] (\<lparr>docs = [], console = [], faults = [], calls = []\<rparr> :: nat db_state) = (\<lparr>docs = [], console = [], faults = [], calls = []\<rparr> :: nat db_state)\<lparr>docs := [1, 2, 3], console := [InsertedBatch 1], calls := [InsertMany 3]\<rparr>"
  using insertDataInBatches_all_acknowledged [of "\<lparr>docs = [], console = [], faults = [], calls = []\<rparr> :: nat db_state" "[1, 2, 3]"]
  by (simp add: BATCH_SIZE_def)

lemma insertDataInBatches_no_silent_drop_witness:
  "1 < length [1, 2, 3 :: nat] \<and>
   ([1, 2, 3] ! 1 \<in> set (docs (insertDataInBatches [1, 2, 3] (\<lparr>docs = [], console = [], faults = [WriteError 0], calls = []\<rparr> :: nat db_state))) \<or>
    ErrorInsertingBatch (1 div BATCH_SIZE + 1) \<in> set (console (insertDataInBatches [1, 2, 3] (\<lparr>docs = [], console = [], faults = [WriteError 0], calls = []\<rparr> :: nat db_state))))"
  using insertDataInBatches_no_silent_drop [of 1 "[1, 2, 3 :: nat]" "\<lparr>docs = [], console = [], faults = [WriteError 0], calls = []\<rparr> :: nat db_state"] by simp

lemma insertDataInBatches_call_sizes_witness:
  "calls (insertDataInBatches [1, 2, 3 :: nat] \<lparr>docs = [], console = [], faults = [], calls = []\<rparr>) = [InsertMany 3] \<and>
   0 < (3::nat) \<and> 3 \<le> BATCH_SIZE"
proof -
  obtain ns where ns: "calls (insertDataInBatches [1, 2, 3 :: nat] \<lparr>docs = [], console = [], faults = [], calls = []\<rparr>) =
      map InsertMany ns" "length ns = 1" "sum_list ns = 3" "\<forall>n \<in> set ns. 0 < n \<and> n \<le> BATCH_SIZE"
    using insertDataInBatches_call_sizes [of "[1, 2, 3 :: nat]" "\<lparr>docs = [], console = [], faults = [], calls = []\<rparr>"]
    by (auto simp add: BATCH_SIZE_def)
  from ns(2) obtain m where "ns = [m]" by (auto simp add: length_Suc_conv)
  with ns show ?thesis by simp
qed

end
