(* ===== verification/Generator.thy ===== *)
theory Generator
  imports Route Telemetry Batches
begin

text \<open>
  The orchestrator \<open>main()\<close> of \<open>src/dataGenerator.js\<close> (lines 84--111) and the
  connection helper \<open>connectToMongoDB\<close> of \<open>src/mongoConnection.js\<close>.
  \<open>connectToMongoDB\<close> either connects (and logs it) or logs the error and calls
  \<open>process.exit(1)\<close>; whether the server answers is an input of the model. For each
  \<open>trainId\<close> from 1 to \<open>NUM_TRAINS\<close> the loop reads the clock (\<open>new Date()\<close>, the
  input \<open>now\<close>), computes \<open>numEntries\<close>, draws the two endpoints and the segment count
  (\<open>faker.number.int({min: 5, max: 15})\<close>), builds the route, synthesizes the series,
  hands it to \<open>insertDataInBatches\<close> and logs \<open>Inserted data for train\<close>. An
  exception anywhere in the loop ends it (the \<open>catch\<close> logs it); the \<open>finally\<close>
  closes the client and logs completion. A loop iteration that throws does so before
  its insert, so the state at the throw is the state after the previous train. The
  driver calls \<open>connect()\<close> and \<open>close()\<close> are recorded in \<open>calls\<close> beside the
  \<open>insertMany\<close> calls of the bulk writer.
\<close>

definition NUM_TRAINS :: int where
  "NUM_TRAINS = 396"

definition NUM_DAYS :: int where
  "NUM_DAYS = 90"

definition numEntries_per_train :: int where
  "numEntries_per_train = NUM_DAYS * 24 * 60 div DATA_INTERVAL_MINUTES"

record 's run_state =
  db :: "location db_state"
  rnd :: 's
  client_closed :: bool
  exit_code :: "int option"

definition connectToMongoDB :: "bool \<Rightarrow> location db_state \<Rightarrow> location db_state \<times> bool" where
  "connectToMongoDB server_up st =
     (if server_up
      then (st\<lparr>console := console st @ [ConnectedToMongoDB], calls := calls st @ [Connect]\<rparr>, True)
      else (st\<lparr>console := console st @ [ErrorConnectingToMongoDB], calls := calls st @ [Connect]\<rparr>, False))"

definition train_iteration ::
  "'s rng \<Rightarrow> timezone \<Rightarrow> (int \<Rightarrow> time_value) \<Rightarrow> int \<Rightarrow> location db_state \<Rightarrow> 's \<Rightarrow>
   (location db_state \<times> 's) result" where
  "train_iteration g tz now trainId st s =
     bind_res (getRandomSriLankanCoordinates g s) (\<lambda>(startCoords, s1).
     bind_res (getRandomSriLankanCoordinates g s1) (\<lambda>(endCoords, s2).
     bind_res (faker_int g 5 15 s2) (\<lambda>(numSegments, s3).
     bind_res (generateLocationData g tz trainId (now trainId) numEntries_per_train
                 (generatePathSegments startCoords endCoords numSegments) s3) (\<lambda>(locationData, s4).
     (let st' = insertDataInBatches locationData st
      in Inr (st'\<lparr>console := console st' @ [InsertedTrain trainId]\<rparr>, s4))))))"

function train_loop ::
  "'s rng \<Rightarrow> timezone \<Rightarrow> (int \<Rightarrow> time_value) \<Rightarrow> int \<Rightarrow> location db_state \<Rightarrow> 's \<Rightarrow>
   (location db_state \<times> 's) \<times> js_error option" where
  "train_loop g tz now trainId st s =
     (if trainId \<le> NUM_TRAINS
      then (case train_iteration g tz now trainId st s of
              Inl e \<Rightarrow> ((st, s), Some e)
            | Inr (st', s') \<Rightarrow> train_loop g tz now (trainId + 1) st' s')
      else ((st, s), None))"
  by pat_completeness auto
termination
  by (relation "measure (\<lambda>(_, _, _, trainId, _, _). nat (NUM_TRAINS + 1 - trainId))") auto

declare train_loop.simps [simp del]

definition main ::
  "'s rng \<Rightarrow> timezone \<Rightarrow> (int \<Rightarrow> time_value) \<Rightarrow> bool \<Rightarrow> location db_state \<Rightarrow> 's \<Rightarrow> 's run_state" where
  "main g tz now server_up st s =
     (let (st1, connected) = connectToMongoDB server_up st
      in if \<not> connected then \<lparr>db = st1, rnd = s, client_closed = False, exit_code = Some 1\<rparr>
         else (let ((st2, s2), err) = train_loop g tz now 1 st1 s;
                   st3 = (case err of None \<Rightarrow> st2
                          | Some _ \<Rightarrow> st2\<lparr>console := console st2 @ [ErrorDuringGeneration]\<rparr>)
               in \<lparr>db = st3\<lparr>calls := calls st3 @ [Close], console := console st3 @ [GenerationComplete]\<rparr>, rnd = s2,
                   client_closed = True, exit_code = None\<rparr>))"

definition trains_logged :: "log_msg list \<Rightarrow> int list" where
  "trains_logged msgs = List.map_filter (\<lambda>m. case m of InsertedTrain k \<Rightarrow> Some k | _ \<Rightarrow> None) msgs"


definition is_batch_msg :: "log_msg \<Rightarrow> bool" where
  "is_batch_msg m = (case m of InsertedBatch _ \<Rightarrow> True | ErrorInsertingBatch _ \<Rightarrow> True | _ \<Rightarrow> False)"


section \<open>Lemmas\<close>

lemma numEntries_per_train_val: "numEntries_per_train = 129600"
  by (simp add: numEntries_per_train_def NUM_DAYS_def DATA_INTERVAL_MINUTES_def)

lemma trains_logged_append [simp]: "trains_logged (xs @ ys) = trains_logged xs @ trains_logged ys"
  by (simp add: trains_logged_def map_filter_def)

lemma trains_logged_InsertedTrain [simp]: "trains_logged (InsertedTrain k # c) = k # trains_logged c"
  by (simp add: trains_logged_def map_filter_def)

lemma batch_msgs_trains [simp]: "list_all is_batch_msg c \<Longrightarrow> trains_logged c = []"
  by (induction c) (auto simp add: trains_logged_def map_filter_def is_batch_msg_def split: log_msg.splits)

lemma fold_insert_batch_console:
  "\<exists>c. console (fold (\<lambda>(k, b). insert_batch k b) L st) = console st @ c \<and> list_all is_batch_msg c"
proof (induction L arbitrary: st)
  case (Cons kb L)
  obtain k b where kb: "kb = (k, b)" by (cases kb)
  have "\<exists>m. console (insert_batch k b st) = console st @ [m] \<and> is_batch_msg m"
    by (simp add: insert_batch_def next_outcome_def is_batch_msg_def split: list.split insert_outcome.split)
  then obtain m where m: "console (insert_batch k b st) = console st @ [m]" "is_batch_msg m" by blast
  from Cons [of "insert_batch k b st"] obtain c where
    "console (fold (\<lambda>(k, b). insert_batch k b) L (insert_batch k b st)) = console (insert_batch k b st) @ c"
    "list_all is_batch_msg c" by blast
  with m kb show ?case by (intro exI [of _ "m # c"]) simp
qed simp

lemma insertDataInBatches_console:
  "\<exists>c. console (insertDataInBatches data st) = console st @ c \<and> list_all is_batch_msg c"
  by (simp add: insertDataInBatches_def insert_batches_loop_fold fold_insert_batch_console)

lemma insertDataInBatches_ack:
  "faults st = [] \<Longrightarrow> docs (insertDataInBatches data st) = docs st @ data \<and>
     faults (insertDataInBatches data st) = []"
  by (simp add: insertDataInBatches_def insert_batches_loop_fold fold_insert_batch_ack concat_chunks BATCH_SIZE_pos)

lemma train_iteration_ok:
  assumes "rng_ok g"
  shows "\<exists>data s'. train_iteration g tz now k st s =
       Inr ((insertDataInBatches data st)\<lparr>console := console (insertDataInBatches data st) @ [InsertedTrain k]\<rparr>, s') \<and>
     length data = nat numEntries_per_train \<and> map train_id data = replicate (nat numEntries_per_train) k"
proof -
  obtain p s1 where p: "getRandomSriLankanCoordinates g s = Inr (p, s1)"
    using getRandomSriLankanCoordinates_ok [of g s] by blast
  obtain q s2 where q: "getRandomSriLankanCoordinates g s1 = Inr (q, s2)"
    using getRandomSriLankanCoordinates_ok [of g s1] by blast
  obtain n s3 where n: "faker_int g 5 15 s2 = Inr (n, s3)" "5 \<le> n"
    using faker_int_range [OF \<open>rng_ok g\<close>, of 5 15 s2] by auto
  have ne: "generatePathSegments p q n \<noteq> []" using n(2) by (simp add: generatePathSegments_eq)
  obtain res s4 where r: "generateLocationData g tz k (now k) numEntries_per_train (generatePathSegments p q n) s3 = Inr (res, s4)"
    using location_loop_returns [OF ne] by (force simp add: generateLocationData_def)
  have "length res = nat numEntries_per_train" using generateLocationData_nth [OF r] by simp
  moreover have "map train_id res = replicate (nat numEntries_per_train) k"
    using \<open>length res = nat numEntries_per_train\<close> generateLocationData_record [OF r]
    by (simp add: list_eq_iff_nth_eq)
  moreover have "train_iteration g tz now k st s =
      Inr ((insertDataInBatches res st)\<lparr>console := console (insertDataInBatches res st) @ [InsertedTrain k]\<rparr>, s4)"
    using p q n r by (simp add: train_iteration_def Let_def)
  ultimately show ?thesis by blast
qed

lemma train_loop_ok:
  "rng_ok g \<Longrightarrow> \<exists>st' s' c. train_loop g tz now k st s = ((st', s'), None) \<and>
     console st' = console st @ c \<and> trains_logged c = [k..NUM_TRAINS] \<and>
     ErrorDuringGeneration \<notin> set c \<and>
     (faults st = [] \<longrightarrow> faults st' = [] \<and>
        map train_id (docs st') = map train_id (docs st) @
          concat (map (\<lambda>j. replicate (nat numEntries_per_train) j) [k..NUM_TRAINS]))"
proof (induction g tz now k st s rule: train_loop.induct)
  case (1 g tz now k st s)
  show ?case
  proof (cases "k \<le> NUM_TRAINS")
    case True
    obtain data s' where it: "train_iteration g tz now k st s =
        Inr ((insertDataInBatches data st)\<lparr>console := console (insertDataInBatches data st) @ [InsertedTrain k]\<rparr>, s')"
        "map train_id data = replicate (nat numEntries_per_train) k"
      using train_iteration_ok [OF "1.prems", of tz now k st s] by blast
    let ?st1 = "(insertDataInBatches data st)\<lparr>console := console (insertDataInBatches data st) @ [InsertedTrain k]\<rparr>"
    obtain c0 where c0: "console (insertDataInBatches data st) = console st @ c0" "list_all is_batch_msg c0"
      using insertDataInBatches_console by blast
    from "1.IH" [OF True it(1) refl "1.prems"]
    obtain st' s'' c where ih: "train_loop g tz now (k + 1) ?st1 s' = ((st', s''), None)"
      "console st' = console ?st1 @ c" "trains_logged c = [k + 1..NUM_TRAINS]" "ErrorDuringGeneration \<notin> set c"
      "faults ?st1 = [] \<longrightarrow> faults st' = [] \<and>
         map train_id (docs st') = map train_id (docs ?st1) @
           concat (map (\<lambda>j. replicate (nat numEntries_per_train) j) [k + 1..NUM_TRAINS])"
      by blast
    have l: "train_loop g tz now k st s = ((st', s''), None)"
      using True it(1) ih(1) by (simp add: train_loop.simps)
    have e: "ErrorDuringGeneration \<notin> set c0"
      using c0(2) by (auto simp add: list_all_iff is_batch_msg_def)
    have t: "console st' = console st @ (c0 @ InsertedTrain k # c) \<and>
             trains_logged (c0 @ InsertedTrain k # c) = [k..NUM_TRAINS] \<and>
             ErrorDuringGeneration \<notin> set (c0 @ InsertedTrain k # c)"
      using ih(2,3,4) c0 e True by (simp add: upto_rec1)
    have "faults st = [] \<longrightarrow> faults st' = [] \<and>
              map train_id (docs st') = map train_id (docs st) @
                concat (map (\<lambda>j. replicate (nat numEntries_per_train) j) [k..NUM_TRAINS])"
      using ih(5) it(2) insertDataInBatches_ack [of st data] True by (simp add: upto_rec1)
    with l t show ?thesis by blast
  next
    case False
    then show ?thesis by (simp add: train_loop.simps)
  qed
qed
lemma train_iteration_Inr:
  "train_iteration g tz now k st s = Inr (st1, s1) \<Longrightarrow>
   \<exists>data. st1 = (insertDataInBatches data st)\<lparr>console := console (insertDataInBatches data st) @ [InsertedTrain k]\<rparr>"
  by (auto simp add: train_iteration_def bind_res_eq_Inr Let_def split: prod.splits)

lemma insertDataInBatches_valid_calls:
  "\<exists>cs. calls (insertDataInBatches data st) = calls st @ cs \<and> valid_inserts cs"
  using chunks_sizes [OF BATCH_SIZE_pos, of _ data]
  by (auto simp add: insertDataInBatches_calls_eq valid_inserts_def list_all_iff)

lemma train_loop_calls:
  "train_loop g tz now k st s = ((st', s'), err) \<Longrightarrow>
   \<exists>cs. calls st' = calls st @ cs \<and> valid_inserts cs"
proof (induction g tz now k st s arbitrary: st' s' rule: train_loop.induct)
  case (1 g tz now k st s)
  show ?case
  proof (cases "k \<le> NUM_TRAINS")
    case True
    show ?thesis
    proof (cases "train_iteration g tz now k st s")
      case (Inl e)
      with True "1.prems" show ?thesis by (auto simp add: train_loop.simps)
    next
      case (Inr r)
      obtain st1 s1 where r: "r = (st1, s1)" by (cases r)
      obtain data where st1: "st1 = (insertDataInBatches data st)\<lparr>console := console (insertDataInBatches data st) @ [InsertedTrain k]\<rparr>"
        using train_iteration_Inr [OF Inr [unfolded r]] by blast
      obtain cs0 where cs0: "calls (insertDataInBatches data st) = calls st @ cs0" "valid_inserts cs0"
        using insertDataInBatches_valid_calls by blast
      have "train_loop g tz now (k + 1) st1 s1 = ((st', s'), err)"
        using True Inr r "1.prems" by (simp add: train_loop.simps)
      from "1.IH" [OF True Inr r [symmetric] this] obtain cs where
        "calls st' = calls st1 @ cs" "valid_inserts cs" by blast
      with cs0 st1 show ?thesis
        by (intro exI [of _ "cs0 @ cs"]) (simp add:)
    qed
  next
    case False
    with "1.prems" show ?thesis by (auto simp add: train_loop.simps)
  qed
qed

section \<open>Properties of a run\<close>

text \<open>
  C25. With a random source that keeps its contract, a run whose connection succeeds
  never reaches the \<open>catch\<close>: it logs the connection, then \<open>Inserted data for train k\<close>
  for \<open>k = 1, ..., NUM_TRAINS\<close> in order (between them only batch lines), no
  generation error, and finally completion; the client is closed and the process does
  not exit with an error.
\<close>

theorem main_completes:
  assumes "rng_ok g"
  shows "\<exists>st' s' c. main g tz now True st s = \<lparr>db = st', rnd = s', client_closed = True, exit_code = None\<rparr> \<and>
     console st' = console st @ ConnectedToMongoDB # c @ [GenerationComplete] \<and>
     trains_logged c = [1..NUM_TRAINS] \<and> ErrorDuringGeneration \<notin> set c"
proof -
  let ?st1 = "st\<lparr>console := console st @ [ConnectedToMongoDB], calls := calls st @ [Connect]\<rparr>"
  obtain st2 s2 c where l: "train_loop g tz now 1 ?st1 s = ((st2, s2), None)"
    "console st2 = console ?st1 @ c" "trains_logged c = [1..NUM_TRAINS]" "ErrorDuringGeneration \<notin> set c"
    using train_loop_ok [OF assms, of tz now 1 ?st1 s] by blast
  have "main g tz now True st s =
      \<lparr>db = st2\<lparr>calls := calls st2 @ [Close], console := console st2 @ [GenerationComplete]\<rparr>, rnd = s2,
       client_closed = True, exit_code = None\<rparr>"
    using l(1) by (simp add: main_def connectToMongoDB_def)
  with l(2-4) show ?thesis by (intro exI [of _ "st2\<lparr>calls := calls st2 @ [Close], console := console st2 @ [GenerationComplete]\<rparr>"] exI [of _ s2] exI [of _ c]) simp
qed

text \<open>
  C26. When the server acknowledges every write, a run appends the trains' records in
  train order: \<open>numEntries = 129600\<close> documents of train 1, then as many of train 2,
  and so on to train \<open>NUM_TRAINS\<close>, \<open>396 * 129600 = 51321600\<close> documents in all.
\<close>

theorem main_documents_by_train:
  assumes "rng_ok g" and "faults st = []"
  shows "map train_id (docs (db (main g tz now True st s))) =
           map train_id (docs st) @ concat (map (\<lambda>k. replicate 129600 k) [1..NUM_TRAINS]) \<and>
         length (docs (db (main g tz now True st s))) = length (docs st) + 51321600"
proof -
  let ?st1 = "st\<lparr>console := console st @ [ConnectedToMongoDB], calls := calls st @ [Connect]\<rparr>"
  obtain st2 s2 where l: "train_loop g tz now 1 ?st1 s = ((st2, s2), None)"
    "map train_id (docs st2) = map train_id (docs st) @
       concat (map (\<lambda>j. replicate (nat numEntries_per_train) j) [1..NUM_TRAINS])"
    using train_loop_ok [OF assms(1), of tz now 1 ?st1 s] assms(2) by auto
  then have m: "map train_id (docs (db (main g tz now True st s))) =
           map train_id (docs st) @ concat (map (\<lambda>k. replicate 129600 k) [1..NUM_TRAINS])"
    by (simp add: main_def connectToMongoDB_def numEntries_per_train_val)
  have c: "length (concat (map (\<lambda>k::int. replicate 129600 k) [1..NUM_TRAINS])) = 51321600"
    by (simp add: length_concat comp_def sum_list_triv NUM_TRAINS_def)
  have "length (docs (db (main g tz now True st s))) = length (map train_id (docs (db (main g tz now True st s))))"
    by simp
  also have "\<dots> = length (docs st) + 51321600"
    by (simp only: m length_append length_map c)
  finally show ?thesis using m by blast
qed



text \<open>
  C32. Every run of \<open>main\<close>, whatever the random source, the clock, the server's write
  outcomes and whether generation throws, uses the MongoDB client as the driver
  requires: \<open>connect()\<close> first; when it succeeds, only \<open>insertMany\<close> calls with a
  non-empty array while the client is open, then exactly one \<open>close()\<close>, last; when
  it fails, no other call (the process exits).
\<close>

theorem main_follows_client_protocol:
  "\<exists>cs. calls (db (main g tz now server_up st s)) = calls st @ cs \<and>
        client_trace Created cs (if server_up then Closed else ConnectFailed)"
proof (cases server_up)
  case True
  let ?st1 = "st\<lparr>console := console st @ [ConnectedToMongoDB], calls := calls st @ [Connect]\<rparr>"
  obtain st2 s2 err where l: "train_loop g tz now 1 ?st1 s = ((st2, s2), err)"
    by (metis prod.exhaust)
  obtain cs where cs: "calls st2 = calls ?st1 @ cs" "valid_inserts cs"
    using train_loop_calls [OF l] by blast
  have "calls (db (main g tz now True st s)) = calls st @ Connect # cs @ [Close]"
    using l cs(1) by (simp add: main_def connectToMongoDB_def split: option.split)
  moreover have "client_trace Created (Connect # cs @ [Close]) Closed"
    using client_trace_inserts [of cs] cs(2)
    by (auto simp add: client_trace_append)
  ultimately show ?thesis using True by auto
next
  case False
  then show ?thesis by (simp add: main_def connectToMongoDB_def client_step.connect_failed)
qed
section \<open>Witnesses\<close>

lemma main_completes_witness:
  "rng_ok demo_rng \<and> client_closed (main demo_rng (fixed_zone 0) (\<lambda>_. 0) True \<lparr>docs = [], console = [], faults = [], calls = []\<rparr> 0)"
  using main_completes [OF demo_rng_ok, of "fixed_zone 0" "\<lambda>_. 0" "\<lparr>docs = [], console = [], faults = [], calls = []\<rparr>" 0]
  by (auto simp add: demo_rng_ok)

lemma main_documents_by_train_witness:
  "rng_ok demo_rng \<and> faults (\<lparr>docs = [], console = [], faults = [], calls = []\<rparr> :: location db_state) = [] \<and>
   length (docs (db (main demo_rng (fixed_zone 0) (\<lambda>_. 0) True \<lparr>docs = [], console = [], faults = [], calls = []\<rparr> 0))) = 51321600"
  using main_documents_by_train [OF demo_rng_ok, of "\<lparr>docs = [], console = [], faults = [], calls = []\<rparr>" "fixed_zone 0" "\<lambda>_. 0" 0]
  by (simp add: demo_rng_ok)
end
