(* ===== verification/Spec2Isabelle.thy ===== *)
theory Spec2Isabelle
  imports Generator
begin

text \<open>
  \<^bold>\<open>Verification development of the train telemetry generator.\<close>

  \<^bold>\<open>The program.\<close> \<open>src/dataGenerator.js\<close> fills the MongoDB collection
  \<open>trainData.locations\<close> with synthetic GPS telemetry. \<open>main\<close> connects through
  \<open>connectToMongoDB\<close> (\<open>src/mongoConnection.js\<close>); for each train
  \<open>1 .. NUM_TRAINS = 396\<close> it draws two endpoints in Sri Lanka
  (\<open>getRandomSriLankanCoordinates\<close>, faker floats), a segment count in
  \<open>[5, 15]\<close> (faker int), cuts the straight line between the endpoints into that many
  segments (\<open>generatePathSegments\<close>), synthesizes one record per minute for
  \<open>NUM_DAYS = 90\<close> days, i.e. \<open>129600\<close> records (\<open>generateLocationData\<close>: a uuid v4
  id, the train id, the date, a point interpolated on its segment, a speed in
  \<open>[30, 120]\<close> and a direction in \<open>[0, 360]\<close>), and writes them in slices of
  \<open>BATCH_SIZE = 1000\<close> (\<open>insertDataInBatches\<close>). The \<open>catch\<close> of \<open>main\<close> logs
  an exception and ends the loop; its \<open>finally\<close> closes the client.

  \<^bold>\<open>Theories.\<close>
  \<^item> \<open>Prelude\<close>: the error type \<open>js_error\<close> (\<open>TypeError\<close>, \<open>FakerError\<close>), the
    result type \<open>js_error + 'a\<close> with \<open>bind_res\<close>, JavaScript array indexing
    \<open>nth_opt\<close> (out of range is \<open>undefined\<close>, \<open>None\<close>), the \<open>%\<close> operator
    \<open>js_rem\<close> (truncated quotient, \<open>js_trunc\<close>), and their lemmas.
  \<^item> \<open>Faker\<close>: the random source as an interface, a record \<open>'s rng\<close> of a float
    draw and a 16-byte draw on an explicit state \<open>'s\<close>, and its contract \<open>rng_ok\<close>
    (floats in \<open>[0, 1)\<close>, blocks of 16 bytes); \<open>faker.number.float\<close> and
    \<open>faker.number.int\<close> (\<open>faker_float\<close>, \<open>faker_int\<close>) over it; \<open>demo_rng\<close>, a
    deterministic source used by the examples.
  \<^item> \<open>Geo\<close>: \<open>SRI_LANKA_BOUNDS\<close>, the point and segment records and
    \<open>getRandomSriLankanCoordinates\<close> (lines 12--24).
  \<^item> \<open>Route\<close>: \<open>generatePathSegments\<close> (lines 26--44), its loop
    \<open>path_segments_loop\<close> and the segment it pushes, \<open>segment_at\<close>.
  \<^item> \<open>JsDate\<close>: the part of ECMA-262 \<open>Date\<close> the code uses (\<open>getMinutes\<close>,
    \<open>setMinutes\<close>, LocalTime/UTC) with the host time zone as a parameter.
  \<^item> \<open>Uuid\<close>: \<open>uuid.v4()\<close> (version and variant bits, \<open>unsafeStringify\<close>) and
    a parser \<open>uuid_parse\<close> that inverts the printing.
  \<^item> \<open>Telemetry\<close>: the record \<open>location\<close> and \<open>generateLocationData\<close>
    (lines 46--70): the loop \<open>location_loop\<close>, its body \<open>location_entry\<close>, and the
    date step \<open>date_step\<close>; \<open>bucket_point\<close> is the point of sample \<open>i\<close> in closed
    form.
  \<^item> \<open>Client\<close>: the options \<open>connectToMongoDB\<close> gives the \<open>MongoClient\<close>
    (\<open>src/mongoConnection.js\<close> lines 6--10) and the driver's contract as a protocol: the
    inductive step relation \<open>client_step\<close> on the client's life cycle (created,
    connected, closed, failed) and its closure \<open>client_trace\<close> over call sequences.
  \<^item> \<open>Batches\<close>: \<open>insertDataInBatches\<close> (lines 72--82) on a state of documents,
    console lines, the outcomes the server gives to the coming \<open>insertMany\<close> calls, and
    the log of the driver calls the program makes.
  \<^item> \<open>Generator\<close>: \<open>main\<close> (lines 84--111), its loop \<open>train_loop\<close> and body
    \<open>train_iteration\<close>, and \<open>connectToMongoDB\<close>.
  \<^item> This theory: the properties that span the route, the coordinate source and the
    synthesizer.

  \<^bold>\<open>Correspondence.\<close> Every JavaScript function is one definition of the same name
  and every \<open>for\<close> loop a recursive \<^theory_text>\<open>function\<close> over the loop variables,
  terminating by the measure \<open>bound - i\<close>; the random source is threaded as explicit
  state (each draw returns the next state), the database and console as a record
  \<open>db_state\<close>, and every exception as an \<open>Inl\<close> result. The clock reading
  \<open>new Date()\<close> is an input \<open>now :: int \<Rightarrow> time_value\<close> of the train id, and whether the
  server answers is a boolean input of \<open>main\<close>.

  \<^bold>\<open>What is proved.\<close> The synthesizer returns exactly \<open>numEntries\<close> records on a
  non-empty route and throws a \<open>TypeError\<close> on an empty one (C1, C12, C13);
  timestamps step by one minute in a zone without daylight saving (C2), in any zone
  exactly when the offset does not change across the step (C30), and by 61 minutes
  across a fall-back transition (C11); each position is the closed-form bucket point
  (C3, C4, C10, and the specification's example C16), and every position lies in the
  island's box (C8), as every drawn endpoint does (C29); speeds and
  directions lie in their ranges (C9); the route has the requested length, starts and
  ends at the endpoints, is chained and cut into equal parts (C5--C7, C14, C15); the uuid
  has the v4 layout, parses back to its bytes and is injective in the random bits
  (C17--C19); the bulk writer is a fold over the 1000-element chunks, writes everything
  when every write succeeds, never drops a record silently and logs one line per batch
  (C20--C24) and calls \<open>insertMany\<close> with 1 to 1000 documents at a time (C31); a run
  with a well-behaved source logs every train and closes the client, inserts
  \<open>51321600\<close> documents in train order, and handles both its error exits (C25--C28);
  every run, whatever happens, is a valid trace of the driver protocol (C32).

  \<^bold>\<open>Modelling choices.\<close> JavaScript numbers are \<open>real\<close>: IEEE rounding is not
  modelled, so the arithmetic of positions is exact. Time values are \<open>int\<close>
  milliseconds and TimeClip is omitted (all dates lie within 90 days of the clock).
  The libraries (faker, uuid, \<open>Date\<close>, the driver's \<open>insertMany\<close>) are modelled from
  their documentation, not from their code. When a train's generation throws, the run's
  random state is the one before that train (it is not observable afterwards).
  Every loop of the program terminates, so no fuel is used.

  \<^bold>\<open>Not modelled.\<close> The inside of the \<open>MongoClient\<close> driver (the TLS handshake the
  options weaken, server selection and its timeout, connection pooling; only its
  contract is modelled), the connection string (it holds credentials), the \<open>cors\<close> import (unused), the string
  formats of the console lines (a datatype of messages stands for them), and the
  \<open>client.db\<close>/\<open>collection\<close> selection, which changes no state.
\<close>

section \<open>Properties across the components\<close>

text \<open>
  C8. Every position the synthesizer generates on a route built between two endpoints
  drawn by \<open>getRandomSriLankanCoordinates\<close> lies inside \<open>SRI_LANKA_BOUNDS\<close>: the
  endpoints are in the box, every segment of the subdivided line is, and every sample
  interpolates within its segment.
\<close>

theorem telemetry_in_sri_lanka:
  assumes "rng_ok g"
    and "getRandomSriLankanCoordinates g s0 = Inr (startCoords, s1)"
    and "getRandomSriLankanCoordinates g s1 = Inr (endCoords, s2)"
    and "generateLocationData g tz trainId startDate numEntries
           (generatePathSegments startCoords endCoords numSegments) s3 = Inr (res, s')"
    and "loc \<in> set res"
  shows "in_bounds SRI_LANKA_BOUNDS \<lparr>latitude = loc_latitude loc, longitude = loc_longitude loc\<rparr>"
proof -
  let ?segs = "generatePathSegments startCoords endCoords numSegments"
  have p: "in_bounds SRI_LANKA_BOUNDS startCoords" "in_bounds SRI_LANKA_BOUNDS endCoords"
    by (rule getRandomSriLankanCoordinates_in_bounds [OF assms(1,2)],
        rule getRandomSriLankanCoordinates_in_bounds [OF assms(1,3)])
  have segs: "\<forall>seg \<in> set ?segs. in_bounds SRI_LANKA_BOUNDS (seg_start seg) \<and>
                                   in_bounds SRI_LANKA_BOUNDS (seg_end seg)"
    using generatePathSegments_in_bounds [OF p] by blast
  from assms(5) obtain j where j: "j < length res" "loc = res ! j" by (auto simp add: in_set_conv_nth)
  from generateLocationData_nth [OF assms(4)] j obtain s0' s1' where
    "location_entry g trainId numEntries ?segs j ((date_step tz ^^ j) startDate) s0' = Inr (res ! j, s1')"
    by blast
  then have ne: "?segs \<noteq> []" by (auto simp add: location_entry_Nil)
  have jn: "j < nat numEntries" using j generateLocationData_nth [OF assms(4)] by simp
  from generateLocationData_record [OF assms(4) j(1)] bucket_point_in_bounds [OF segs ne jn] j(2)
  show ?thesis by (simp add: geo_point_eta)
qed


section \<open>Witnesses\<close>

lemma telemetry_in_sri_lanka_witness:
  "rng_ok demo_rng \<and>
   (\<exists>p q s1 s2 res s'. getRandomSriLankanCoordinates demo_rng 0 = Inr (p, s1) \<and>
      getRandomSriLankanCoordinates demo_rng s1 = Inr (q, s2) \<and>
      generateLocationData demo_rng (fixed_zone 0) 1 0 2 (generatePathSegments p q 1) s2 = Inr (res, s') \<and>
      res \<noteq> [] \<and>
      in_bounds SRI_LANKA_BOUNDS \<lparr>latitude = loc_latitude (hd res), longitude = loc_longitude (hd res)\<rparr>)"
proof -
  have "\<exists>p s1. getRandomSriLankanCoordinates demo_rng 0 = Inr (p, s1)"
    by (simp add: getRandomSriLankanCoordinates_def faker_float_def demo_rng_def SRI_LANKA_BOUNDS_def)
  then obtain p s1 where p: "getRandomSriLankanCoordinates demo_rng 0 = Inr (p, s1)" by blast
  have "\<exists>q s2. getRandomSriLankanCoordinates demo_rng s1 = Inr (q, s2)"
    by (simp add: getRandomSriLankanCoordinates_def faker_float_def demo_rng_def SRI_LANKA_BOUNDS_def)
  then obtain q s2 where q: "getRandomSriLankanCoordinates demo_rng s1 = Inr (q, s2)" by blast
  have ne: "generatePathSegments p q 1 \<noteq> []" by (simp add: generatePathSegments_eq)
  from location_loop_returns [OF ne, of demo_rng "fixed_zone 0" 1 2 0 0 s2 "[]"]
  obtain res s' where r: "generateLocationData demo_rng (fixed_zone 0) 1 0 2 (generatePathSegments p q 1) s2
      = Inr (res, s')" by (auto simp add: generateLocationData_def)
  have "res \<noteq> []" using generateLocationData_nth [OF r] by auto
  then have "hd res \<in> set res" by simp
  from telemetry_in_sri_lanka [OF demo_rng_ok p q r this] p q r \<open>res \<noteq> []\<close> demo_rng_ok
  show ?thesis by blast
qed

end
